theory Spec2Isabelle
  imports
    Complex_Main
    "HOL-Library.Finite_Map"
    "HOL-Library.List_Lexorder"
    "HOL-Library.Char_ord"
    "HOL-Library.Log_Nat"
begin

section \<open>Data model\<close>

text \<open>
  Python strings are modelled as \<open>string\<close> (the UTF-8 bytes of the text). With
  \<open>List_Lexorder\<close> and \<open>Char_ord\<close> the order on \<open>string\<close> is the lexicographic
  order on bytes, which is the order Python's \<open>sorted\<close> uses on \<open>str\<close> (code point
  order and UTF-8 byte order agree).

  A Python \<open>dict\<close> is a finite map (\<open>fmap\<close>): \<open>d[k]\<close> is \<open>fmlookup d k\<close>, raising
  \<open>KeyError\<close> on \<open>None\<close>; \<open>set(d.keys())\<close> is \<open>fmdom' d\<close>; equality of dicts does not
  depend on insertion order.

  The type \<open>'f\<close> stands for the Python \<open>float\<close> of a modification time or of a JSON
  document, which the program only stores and copies. The floats of the clock, on which
  it computes, are the type \<open>double\<close> below.
\<close>

text \<open>The exceptions the program can raise, by class. \<open>IllTyped\<close> is not an
  exception: it marks the one place (\<open>load_baseline\<close>) where the source would build a
  \<open>BaselineRecord\<close> whose field values are not of the declared field types, which the
  typed record of this theory cannot hold.\<close>

datatype error =
    OSError | ValueError | KeyError | TypeError | AttributeError | OverflowError | RuntimeError
  | IllTyped

text \<open>\<open>fim/baseline.py\<close>, class \<open>BaselineRecord\<close>. The field \<open>size\<close> is named
  \<open>size_bytes\<close> here.\<close>

record 'f BaselineRecord =
  path :: string
  hash :: string
  size_bytes :: int
  mtime :: 'f

text \<open>\<open>fim/monitor.py\<close>, class \<open>Change\<close>.\<close>

record Change =
  change_type :: string
  path :: string
  details :: "(string, string) fmap"

type_synonym 'f baseline = "(string, 'f BaselineRecord) fmap"

text \<open>Subscripting a dict: \<open>d[k]\<close>.\<close>

definition getitem :: "('k, 'v) fmap \<Rightarrow> 'k \<Rightarrow> error + 'v" where
  "getitem d k = (case fmlookup d k of None \<Rightarrow> Inl KeyError | Some v \<Rightarrow> Inr v)"

section \<open>The diff engine: \<open>compare_baseline\<close>\<close>

text \<open>
  The three comprehensions of \<open>compare_baseline\<close>, each a loop over a sorted list of
  paths. A failing subscript ends the loop with \<open>KeyError\<close>, as the exception would.
\<close>

fun created_changes :: "'f baseline \<Rightarrow> string list \<Rightarrow> error + Change list" where
  "created_changes current [] = Inr []"
| "created_changes current (created_path # ps) =
     (case getitem current created_path of
        Inl e \<Rightarrow> Inl e
      | Inr r \<Rightarrow>
          (case created_changes current ps of
             Inl e \<Rightarrow> Inl e
           | Inr cs \<Rightarrow>
               Inr (\<lparr>change_type = ''created'', path = created_path,
                      details = fmap_of_list [(''hash'', hash r)]\<rparr> # cs)))"

fun deleted_changes :: "'f baseline \<Rightarrow> string list \<Rightarrow> error + Change list" where
  "deleted_changes baseline [] = Inr []"
| "deleted_changes baseline (deleted_path # ps) =
     (case getitem baseline deleted_path of
        Inl e \<Rightarrow> Inl e
      | Inr r \<Rightarrow>
          (case deleted_changes baseline ps of
             Inl e \<Rightarrow> Inl e
           | Inr cs \<Rightarrow>
               Inr (\<lparr>change_type = ''deleted'', path = deleted_path,
                      details = fmap_of_list [(''hash'', hash r)]\<rparr> # cs)))"

fun modified_changes :: "'f baseline \<Rightarrow> 'f baseline \<Rightarrow> string list \<Rightarrow> error + Change list" where
  "modified_changes baseline current [] = Inr []"
| "modified_changes baseline current (common_path # ps) =
     (case getitem baseline common_path of
        Inl e \<Rightarrow> Inl e
      | Inr baseline_record \<Rightarrow>
          (case getitem current common_path of
             Inl e \<Rightarrow> Inl e
           | Inr current_record \<Rightarrow>
               (case modified_changes baseline current ps of
                  Inl e \<Rightarrow> Inl e
                | Inr cs \<Rightarrow>
                    if hash baseline_record \<noteq> hash current_record
                    then Inr (\<lparr>change_type = ''modified'', path = common_path,
                                details = fmap_of_list
                                  [(''before'', hash baseline_record),
                                   (''after'', hash current_record)]\<rparr> # cs)
                    else Inr cs)))"

definition compare_baseline :: "'f baseline \<Rightarrow> 'f baseline \<Rightarrow> error + Change list" where
  "compare_baseline baseline current =
     (let baseline_paths = fmdom' baseline;
          current_paths = fmdom' current
      in case created_changes current (sorted_list_of_set (current_paths - baseline_paths)) of
           Inl e \<Rightarrow> Inl e
         | Inr changes \<Rightarrow>
             (case deleted_changes baseline
                     (sorted_list_of_set (baseline_paths - current_paths)) of
                Inl e \<Rightarrow> Inl e
              | Inr deleted \<Rightarrow>
                  (case modified_changes baseline current
                          (sorted_list_of_set (baseline_paths \<inter> current_paths)) of
                     Inl e \<Rightarrow> Inl e
                   | Inr modified \<Rightarrow> Inr (changes @ deleted @ modified))))"


section \<open>The environment\<close>

text \<open>
  Values read from a JSON document (the result of \<open>json.loads\<close>). An object is the
  list of its items in the order of the Python dict; \<open>d.get(k, default)\<close> looks the
  key up in that list.
\<close>

datatype 'f json =
    JNull
  | JBool bool
  | JInt int
  | JFloat 'f
  | JStr string
  | JList "'f json list"
  | JObj "(string \<times> 'f json) list"

definition dict_get :: "(string \<times> 'f json) list \<Rightarrow> string \<Rightarrow> 'f json \<Rightarrow> 'f json" where
  "dict_get kvs k dflt = (case map_of kvs k of None \<Rightarrow> dflt | Some v \<Rightarrow> v)"

text \<open>The calls made on the logger: \<open>logger.warning("Skipping %s: %s", path, exc)\<close>
  and \<open>logger.info(message)\<close>. A function that logs returns the entries it emitted,
  in order, beside its result; they are kept when the function raises.\<close>

datatype log_entry = SkippingWarning string error | Info string

type_synonym 'a logged = "log_entry list \<times> (error + 'a)"

text \<open>\<open>fim/config.py\<close>, class \<open>Config\<close>. Paths are the strings of the \<open>Path\<close>
  objects. \<open>load_config\<close> stores the elements of \<open>exclude_globs\<close> as it finds them in
  the document, so they are JSON values.\<close>

record 'f Config =
  paths :: "string list"
  exclude_globs :: "'f json list"
  follow_symlinks :: bool
  hash_algorithm :: string
  baseline_file :: string
  log_file :: string
  scan_interval_seconds :: int
  event_debounce_ms :: int

text \<open>
  What the program observes of the operating system and of the Python library, at one
  instant. \<open>'h\<close> is the state of a \<open>hashlib\<close> hash object. An \<open>option\<close> result is
  \<open>None\<close> where the call raises \<open>OSError\<close> (for \<open>hashlib_new\<close> and \<open>relative_to\<close>
  and \<open>json_loads\<close>: \<open>ValueError\<close>).
  \<^item> \<open>path_exists\<close>, \<open>is_file\<close> and \<open>is_symlink\<close> are \<open>Path.exists()\<close>,
    \<open>Path.is_file()\<close> and \<open>Path.is_symlink()\<close>: they return \<open>False\<close> for a path that
    is missing, and raise the \<open>OSError\<close> of any other failure (a directory that may
    not be searched, for one);
  \<^item> \<open>rglob r\<close>: what the generator \<open>r.rglob("*")\<close> yields, in order; an error, if
    any, is the exception that ends it;
  \<^item> \<open>open_rb p\<close>: the chunks that the reads of \<open>compute_file_hash\<close> return before the
    empty chunk, or \<open>None\<close> when opening or a read fails;
  \<^item> \<open>stat p\<close>: \<open>st_size\<close> and \<open>st_mtime\<close>;
  \<^item> \<open>files\<close>: the text files that \<open>read_text\<close> reads and \<open>write_text\<close> writes;
  \<^item> \<open>json_dumps\<close> is \<open>json.dumps(\<cdot>, indent=2, sort_keys=True)\<close>;
  \<^item> \<open>str_of_path s\<close> is \<open>str(Path(s))\<close>.
\<close>

record ('f, 'h) world =
  path_exists :: "string \<Rightarrow> error + bool"
  is_file :: "string \<Rightarrow> error + bool"
  is_symlink :: "string \<Rightarrow> error + bool"
  rglob :: "string \<Rightarrow> (error + string) list"
  open_rb :: "string \<Rightarrow> string list option"
  stat :: "string \<Rightarrow> (int \<times> 'f) option"
  relative_to :: "string \<Rightarrow> string \<Rightarrow> string option"
  path_match :: "string \<Rightarrow> string \<Rightarrow> error + bool"
  str_of_path :: "string \<Rightarrow> string"
  expanduser :: "string \<Rightarrow> error + string"
  resolve :: "string \<Rightarrow> error + string"
  parent :: "string \<Rightarrow> string"
  mkdir_ok :: "string \<Rightarrow> bool"
  writable :: "string \<Rightarrow> bool"
  files :: "string \<Rightarrow> string option"
  hashlib_new :: "string \<Rightarrow> 'h option"
  hasher_update :: "'h \<Rightarrow> string \<Rightarrow> 'h"
  hexdigest :: "'h \<Rightarrow> error + string"
  json_dumps :: "'f json \<Rightarrow> string"
  json_loads :: "string \<Rightarrow> 'f json option"
  repr_json :: "'f json \<Rightarrow> string"
  int_of_str :: "string \<Rightarrow> error + int"
  int_of_float :: "'f \<Rightarrow> error + int"
  float_truthy :: "'f \<Rightarrow> bool"
  str_chars :: "string \<Rightarrow> string list"
  str_upper :: "string \<Rightarrow> string"

text \<open>Sequencing of calls that may raise.\<close>

definition and_then :: "'e + 'a \<Rightarrow> ('a \<Rightarrow> 'e + 'b) \<Rightarrow> 'e + 'b" where
  "and_then r f = (case r of Inl e \<Rightarrow> Inl e | Inr v \<Rightarrow> f v)"

section \<open>\<open>fim/utils.py\<close>\<close>

text \<open>\<open>compute_file_hash\<close>: \<open>hashlib.new\<close> raises \<open>ValueError\<close> for an algorithm it
  does not support; opening or reading raises \<open>OSError\<close>; every chunk read updates the
  hash object.\<close>

definition compute_file_hash :: "('f, 'h) world \<Rightarrow> string \<Rightarrow> string \<Rightarrow> error + string" where
  "compute_file_hash w p algorithm =
     (case hashlib_new w algorithm of
        None \<Rightarrow> Inl ValueError
      | Some hasher \<Rightarrow>
          (case open_rb w p of
             None \<Rightarrow> Inl OSError
           | Some chunks \<Rightarrow>
               hexdigest w (fold (\<lambda>chunk h. hasher_update w h chunk) chunks hasher)))"

text \<open>The truth value of a value of the document: \<open>bool(v)\<close>, \<open>not v\<close>.\<close>

definition py_bool :: "('f, 'h) world \<Rightarrow> 'f json \<Rightarrow> bool" where
  "py_bool w v =
     (case v of
        JNull \<Rightarrow> False
      | JBool b \<Rightarrow> b
      | JInt n \<Rightarrow> n \<noteq> 0
      | JFloat x \<Rightarrow> float_truthy w x
      | JStr s \<Rightarrow> s \<noteq> []
      | JList xs \<Rightarrow> xs \<noteq> []
      | JObj kvs \<Rightarrow> kvs \<noteq> [])"

text \<open>\<open>path.match(pattern)\<close> for a pattern taken from the configuration. For a
  pattern that is not a string, \<open>PurePath.match\<close> (CPython 3.11, POSIX) skips a false
  value while it parses the pattern and raises \<open>ValueError\<close> (empty pattern), and
  raises \<open>TypeError\<close> on any other value.\<close>

definition match_pattern :: "('f, 'h) world \<Rightarrow> string \<Rightarrow> 'f json \<Rightarrow> error + bool" where
  "match_pattern w p pattern =
     (case pattern of
        JStr s \<Rightarrow> path_match w p s
      | _ \<Rightarrow> if py_bool w pattern then Inl TypeError else Inl ValueError)"

fun exclude_loop :: "('f, 'h) world \<Rightarrow> string \<Rightarrow> string \<Rightarrow> 'f json list \<Rightarrow> error + bool" where
  "exclude_loop w p relative [] = Inr False"
| "exclude_loop w p relative (pattern # patterns) =
     (case match_pattern w p pattern of
        Inl e \<Rightarrow> Inl e
      | Inr True \<Rightarrow> Inr True
      | Inr False \<Rightarrow>
          (case match_pattern w relative pattern of
             Inl e \<Rightarrow> Inl e
           | Inr True \<Rightarrow> Inr True
           | Inr False \<Rightarrow> exclude_loop w p relative patterns))"

definition should_exclude ::
  "('f, 'h) world \<Rightarrow> string \<Rightarrow> string \<Rightarrow> 'f json list \<Rightarrow> error + bool" where
  "should_exclude w p root' globs =
     (case relative_to w p root' of
        None \<Rightarrow> Inl ValueError
      | Some relative \<Rightarrow> exclude_loop w p relative globs)"

text \<open>
  \<open>iter_files\<close> is a generator: what it yields, in order, ending with the exception
  that a call of \<open>is_file\<close> or \<open>is_symlink\<close> or the walk of \<open>rglob\<close> raises, if one
  does. The caller's loop body runs for each path yielded before the exception.
  \<open>is_symlink\<close> is called only when \<open>follow_symlinks\<close> is false.
\<close>

fun iter_rglob ::
  "('f, 'h) world \<Rightarrow> bool \<Rightarrow> (error + string) list \<Rightarrow> (error + string) list" where
  "iter_rglob w follow [] = []"
| "iter_rglob w follow (Inl e # rest) = [Inl e]"
| "iter_rglob w follow (Inr p # rest) =
     (case is_file w p of
        Inl e \<Rightarrow> [Inl e]
      | Inr False \<Rightarrow> iter_rglob w follow rest
      | Inr True \<Rightarrow>
          if follow then Inr p # iter_rglob w follow rest
          else (case is_symlink w p of
                  Inl e \<Rightarrow> [Inl e]
                | Inr True \<Rightarrow> iter_rglob w follow rest
                | Inr False \<Rightarrow> Inr p # iter_rglob w follow rest))"

definition iter_files ::
  "('f, 'h) world \<Rightarrow> string \<Rightarrow> bool \<Rightarrow> (error + string) list" where
  "iter_files w root' follow =
     (case is_file w root' of
        Inl e \<Rightarrow> [Inl e]
      | Inr True \<Rightarrow> [Inr root']
      | Inr False \<Rightarrow> iter_rglob w follow (rglob w root'))"

section \<open>\<open>snapshot\<close> and \<open>build_baseline\<close>\<close>

text \<open>\<open>fim/monitor.py\<close>, \<open>snapshot\<close>: the inner loop over the files of one root, the
  outer loop over the roots. \<open>except OSError\<close> catches \<open>OSError\<close> only, and only
  inside the \<open>try\<close>; an exception of \<open>iter_files\<close> or \<open>should_exclude\<close>, and any
  other exception of the hashing, ends the walk.\<close>

fun snapshot_files ::
  "('f, 'h) world \<Rightarrow> 'f Config \<Rightarrow> string \<Rightarrow> (error + string) list \<Rightarrow> 'f baseline
     \<Rightarrow> ('f baseline) logged" where
  "snapshot_files w config root' [] snapshot_data = ([], Inr snapshot_data)"
| "snapshot_files w config root' (Inl e # ps) snapshot_data = ([], Inl e)"
| "snapshot_files w config root' (Inr p # ps) snapshot_data =
     (case should_exclude w p root' (exclude_globs config) of
        Inl e \<Rightarrow> ([], Inl e)
      | Inr True \<Rightarrow> snapshot_files w config root' ps snapshot_data
      | Inr False \<Rightarrow>
          (case compute_file_hash w p (hash_algorithm config) of
             Inl e \<Rightarrow>
               if e = OSError
               then (case snapshot_files w config root' ps snapshot_data of
                       (entries, r) \<Rightarrow> (SkippingWarning p e # entries, r))
               else ([], Inl e)
           | Inr file_hash \<Rightarrow>
               (case stat w p of
                  None \<Rightarrow>
                    (case snapshot_files w config root' ps snapshot_data of
                       (entries, r) \<Rightarrow> (SkippingWarning p OSError # entries, r))
                | Some (st_size, st_mtime) \<Rightarrow>
                    snapshot_files w config root' ps
                      (fmupd p \<lparr>BaselineRecord.path = p, hash = file_hash,
                                size_bytes = st_size, mtime = st_mtime\<rparr> snapshot_data))))"

fun snapshot_roots ::
  "('f, 'h) world \<Rightarrow> 'f Config \<Rightarrow> string list \<Rightarrow> 'f baseline \<Rightarrow> ('f baseline) logged" where
  "snapshot_roots w config [] snapshot_data = ([], Inr snapshot_data)"
| "snapshot_roots w config (root' # roots) snapshot_data =
     (case snapshot_files w config root' (iter_files w root' (follow_symlinks config))
             snapshot_data of
        (entries, Inl e) \<Rightarrow> (entries, Inl e)
      | (entries, Inr snapshot_data') \<Rightarrow>
          (case snapshot_roots w config roots snapshot_data' of
             (entries', r) \<Rightarrow> (entries @ entries', r)))"

definition snapshot :: "('f, 'h) world \<Rightarrow> 'f Config \<Rightarrow> ('f baseline) logged" where
  "snapshot w config = snapshot_roots w config (paths config) fmempty"

text \<open>\<open>fim/baseline.py\<close>, \<open>build_baseline\<close>.\<close>

fun build_baseline_files ::
  "('f, 'h) world \<Rightarrow> 'f Config \<Rightarrow> string \<Rightarrow> (error + string) list \<Rightarrow> 'f baseline
     \<Rightarrow> ('f baseline) logged" where
  "build_baseline_files w config root' [] baseline = ([], Inr baseline)"
| "build_baseline_files w config root' (Inl e # ps) baseline = ([], Inl e)"
| "build_baseline_files w config root' (Inr p # ps) baseline =
     (case should_exclude w p root' (exclude_globs config) of
        Inl e \<Rightarrow> ([], Inl e)
      | Inr True \<Rightarrow> build_baseline_files w config root' ps baseline
      | Inr False \<Rightarrow>
          (case compute_file_hash w p (hash_algorithm config) of
             Inl e \<Rightarrow>
               if e = OSError
               then (case build_baseline_files w config root' ps baseline of
                       (entries, r) \<Rightarrow> (SkippingWarning p e # entries, r))
               else ([], Inl e)
           | Inr file_hash \<Rightarrow>
               (case stat w p of
                  None \<Rightarrow>
                    (case build_baseline_files w config root' ps baseline of
                       (entries, r) \<Rightarrow> (SkippingWarning p OSError # entries, r))
                | Some (st_size, st_mtime) \<Rightarrow>
                    build_baseline_files w config root' ps
                      (fmupd p \<lparr>BaselineRecord.path = p, hash = file_hash,
                                size_bytes = st_size, mtime = st_mtime\<rparr> baseline))))"

fun build_baseline_roots ::
  "('f, 'h) world \<Rightarrow> 'f Config \<Rightarrow> string list \<Rightarrow> 'f baseline \<Rightarrow> ('f baseline) logged" where
  "build_baseline_roots w config [] baseline = ([], Inr baseline)"
| "build_baseline_roots w config (root' # roots) baseline =
     (case build_baseline_files w config root' (iter_files w root' (follow_symlinks config))
             baseline of
        (entries, Inl e) \<Rightarrow> (entries, Inl e)
      | (entries, Inr baseline') \<Rightarrow>
          (case build_baseline_roots w config roots baseline' of
             (entries', r) \<Rightarrow> (entries @ entries', r)))"

definition build_baseline :: "('f, 'h) world \<Rightarrow> 'f Config \<Rightarrow> ('f baseline) logged" where
  "build_baseline w config = build_baseline_roots w config (paths config) fmempty"

section \<open>The incremental classifier and the reporter\<close>

text \<open>\<open>fim/monitor.py\<close>, \<open>build_event_change\<close>; \<open>p\<close> is \<open>str(path)\<close>. The call
  \<open>path.exists()\<close> is outside the \<open>try\<close>: an exception it raises is not caught. The
  subscript \<open>baseline[str(path)]\<close> follows the membership test. \<open>except OSError\<close>
  catches \<open>OSError\<close> only.\<close>

definition build_event_change ::
  "('f, 'h) world \<Rightarrow> 'f baseline \<Rightarrow> string \<Rightarrow> 'f Config \<Rightarrow> (Change list) logged" where
  "build_event_change w baseline p config =
     (case path_exists w p of
        Inl e \<Rightarrow> ([], Inl e)
      | Inr False \<Rightarrow>
          (if p |\<in>| fmdom baseline then
             (case getitem baseline p of
                Inl e \<Rightarrow> ([], Inl e)
              | Inr r \<Rightarrow>
                  ([], Inr [\<lparr>change_type = ''deleted'', path = p,
                             details = fmap_of_list [(''hash'', hash r)]\<rparr>]))
           else ([], Inr []))
      | Inr True \<Rightarrow>
          (case compute_file_hash w p (hash_algorithm config) of
             Inl e \<Rightarrow> (if e = OSError then ([SkippingWarning p e], Inr []) else ([], Inl e))
           | Inr file_hash \<Rightarrow>
               (case fmlookup baseline p of
                  None \<Rightarrow>
                    ([], Inr [\<lparr>change_type = ''created'', path = p,
                               details = fmap_of_list [(''hash'', file_hash)]\<rparr>])
                | Some baseline_record \<Rightarrow>
                    if hash baseline_record \<noteq> file_hash
                    then ([], Inr [\<lparr>change_type = ''modified'', path = p,
                                    details = fmap_of_list
                                      [(''before'', hash baseline_record),
                                       (''after'', file_hash)]\<rparr>])
                    else ([], Inr []))))"

text \<open>\<open>fim/reporting.py\<close>, \<open>format_change\<close>. \<open>change.details[k]\<close> raises
  \<open>KeyError\<close> for a missing key; \<open>change.details.get('hash', '')\<close> does not.\<close>

definition format_change :: "('f, 'h) world \<Rightarrow> Change \<Rightarrow> error + string" where
  "format_change w change =
     (if change_type change = ''modified'' then
        and_then (getitem (details change) ''before'') (\<lambda>before.
        and_then (getitem (details change) ''after'') (\<lambda>after.
          Inr (''MODIFIED '' @ Change.path change @ '' before='' @ before
               @ '' after='' @ after)))
      else if change_type change = ''created'' then
        and_then (getitem (details change) ''hash'') (\<lambda>h.
          Inr (''CREATED '' @ Change.path change @ '' hash='' @ h))
      else if change_type change = ''deleted'' then
        and_then (getitem (details change) ''hash'') (\<lambda>h.
          Inr (''DELETED '' @ Change.path change @ '' hash='' @ h))
      else if change_type change = ''moved'' then
        and_then (getitem (details change) ''from'') (\<lambda>from.
        and_then (getitem (details change) ''to'') (\<lambda>to.
          Inr (''MOVED '' @ from @ '' -> '' @ to @ '' hash=''
               @ (case fmlookup (details change) ''hash'' of None \<Rightarrow> [] | Some h \<Rightarrow> h))))
      else Inr (str_upper w (change_type change) @ '' '' @ Change.path change))"

fun report_changes :: "('f, 'h) world \<Rightarrow> Change list \<Rightarrow> unit logged" where
  "report_changes w [] = ([], Inr ())"
| "report_changes w (change # changes) =
     (case format_change w change of
        Inl e \<Rightarrow> ([], Inl e)
      | Inr message \<Rightarrow>
          (case report_changes w changes of
             (entries, r) \<Rightarrow> (Info message # entries, r)))"

section \<open>\<open>fim/config.py\<close>: \<open>load_config\<close>\<close>

text \<open>The Python conversions \<open>load_config\<close> applies to the values of the document:
  iteration (\<open>for p in v\<close>, \<open>list(v)\<close>), \<open>bool(v)\<close> (\<open>py_bool\<close> above), \<open>str(v)\<close>,
  \<open>int(v)\<close> and \<open>Path(v)\<close>.\<close>

definition py_iter :: "('f, 'h) world \<Rightarrow> 'f json \<Rightarrow> error + 'f json list" where
  "py_iter w v =
     (case v of
        JList xs \<Rightarrow> Inr xs
      | JStr s \<Rightarrow> Inr (map JStr (str_chars w s))
      | JObj kvs \<Rightarrow> Inr (map (\<lambda>kv. JStr (fst kv)) kvs)
      | _ \<Rightarrow> Inl TypeError)"

definition py_str :: "('f, 'h) world \<Rightarrow> 'f json \<Rightarrow> string" where
  "py_str w v = (case v of JStr s \<Rightarrow> s | _ \<Rightarrow> repr_json w v)"

definition py_int :: "('f, 'h) world \<Rightarrow> 'f json \<Rightarrow> error + int" where
  "py_int w v =
     (case v of
        JInt n \<Rightarrow> Inr n
      | JBool b \<Rightarrow> Inr (if b then 1 else 0)
      | JFloat x \<Rightarrow> int_of_float w x
      | JStr s \<Rightarrow> int_of_str w s
      | _ \<Rightarrow> Inl TypeError)"

definition make_path :: "'f json \<Rightarrow> error + string" where
  "make_path v = (case v of JStr s \<Rightarrow> Inr s | _ \<Rightarrow> Inl TypeError)"

text \<open>The comprehension \<open>[Path(p).expanduser().resolve() for p in \<dots>]\<close>.\<close>

fun resolve_paths :: "('f, 'h) world \<Rightarrow> 'f json list \<Rightarrow> error + string list" where
  "resolve_paths w [] = Inr []"
| "resolve_paths w (p # ps) =
     and_then (make_path p) (\<lambda>s.
     and_then (expanduser w s) (\<lambda>s'.
     and_then (resolve w s') (\<lambda>q.
     and_then (resolve_paths w ps) (\<lambda>qs. Inr (q # qs)))))"

text \<open>\<open>load_config\<close> after \<open>json.loads\<close>: \<open>data.get\<close> exists on a dict only.\<close>

definition load_config_data :: "('f, 'h) world \<Rightarrow> 'f json \<Rightarrow> error + 'f Config" where
  "load_config_data w data =
     (case data of
        JObj kvs \<Rightarrow>
          and_then (py_iter w (dict_get kvs ''paths'' (JList []))) (\<lambda>ps.
          and_then (resolve_paths w ps) (\<lambda>resolved.
          if resolved = [] then Inl ValueError
          else
            and_then (make_path (dict_get kvs ''baseline_file'' (JStr ''./baseline.json'')))
              (\<lambda>bf.
            and_then (expanduser w bf) (\<lambda>baseline_file'.
            and_then (make_path (dict_get kvs ''log_file'' (JStr ''./logs/fim.log''))) (\<lambda>lf.
            and_then (expanduser w lf) (\<lambda>log_file'.
            and_then (py_iter w (dict_get kvs ''exclude_globs'' (JList []))) (\<lambda>globs.
            and_then (py_int w (dict_get kvs ''scan_interval_seconds'' (JInt 60))) (\<lambda>interval.
            and_then (py_int w (dict_get kvs ''event_debounce_ms'' (JInt 250))) (\<lambda>debounce.
              Inr \<lparr>paths = resolved,
                   exclude_globs = globs,
                   follow_symlinks = py_bool w (dict_get kvs ''follow_symlinks'' (JBool False)),
                   hash_algorithm = py_str w (dict_get kvs ''hash_algorithm'' (JStr ''sha256'')),
                   baseline_file = baseline_file',
                   log_file = log_file',
                   scan_interval_seconds = interval,
                   event_debounce_ms = debounce\<rparr>))))))))) 
      | _ \<Rightarrow> Inl AttributeError)"

definition read_text :: "('f, 'h) world \<Rightarrow> string \<Rightarrow> error + string" where
  "read_text w p = (case files w p of None \<Rightarrow> Inl OSError | Some text \<Rightarrow> Inr text)"

definition loads :: "('f, 'h) world \<Rightarrow> string \<Rightarrow> error + 'f json" where
  "loads w text = (case json_loads w text of None \<Rightarrow> Inl ValueError | Some v \<Rightarrow> Inr v)"

definition load_config :: "('f, 'h) world \<Rightarrow> string \<Rightarrow> error + 'f Config" where
  "load_config w config_path =
     and_then (read_text w config_path) (\<lambda>text.
     and_then (loads w text) (\<lambda>data. load_config_data w data))"

section \<open>\<open>fim/baseline.py\<close>: \<open>save_baseline\<close> and \<open>load_baseline\<close>\<close>

text \<open>\<open>dataclasses.asdict\<close> of a record: its fields, in the order of the class.\<close>

definition asdict :: "'f BaselineRecord \<Rightarrow> 'f json" where
  "asdict record =
     JObj [(''path'', JStr (BaselineRecord.path record)),
           (''hash'', JStr (hash record)),
           (''size'', JInt (size_bytes record)),
           (''mtime'', JFloat (mtime record))]"

text \<open>The dict comprehension of \<open>save_baseline\<close>. The items of \<open>records\<close> are taken
  in the order of their keys; \<open>json.dumps\<close> with \<open>sort_keys=True\<close> writes them in that
  order whatever the order of the dict.\<close>

definition payload_of :: "'f baseline \<Rightarrow> 'f json" where
  "payload_of records =
     JObj (map (\<lambda>item. (fst item, asdict (snd item))) (sorted_list_of_fmap records))"

text \<open>\<open>save_baseline\<close> creates the parent directory and writes the text; it returns
  the environment with the file written.\<close>

definition save_baseline ::
  "('f, 'h) world \<Rightarrow> 'f baseline \<Rightarrow> string \<Rightarrow> error + ('f, 'h) world" where
  "save_baseline w records destination =
     (if \<not> mkdir_ok w (parent w destination) then Inl OSError
      else if \<not> writable w destination then Inl OSError
      else Inr (w\<lparr>files := (files w)(destination := Some (json_dumps w (payload_of records)))\<rparr>))"

text \<open>\<open>record[k]\<close> on a value of the document.\<close>

definition subscript :: "'f json \<Rightarrow> string \<Rightarrow> error + 'f json" where
  "subscript v k =
     (case v of
        JObj kvs \<Rightarrow> (case map_of kvs k of None \<Rightarrow> Inl KeyError | Some x \<Rightarrow> Inr x)
      | _ \<Rightarrow> Inl TypeError)"

text \<open>The constructor call \<open>BaselineRecord(path=\<dots>, hash=\<dots>, size=\<dots>, mtime=\<dots>)\<close>
  on values of the document.\<close>

definition make_record ::
  "'f json \<Rightarrow> 'f json \<Rightarrow> 'f json \<Rightarrow> 'f json \<Rightarrow> error + 'f BaselineRecord" where
  "make_record v_path v_hash v_size v_mtime =
     (case (v_path, v_hash, v_size, v_mtime) of
        (JStr p, JStr h, JInt s, JFloat m) \<Rightarrow>
          Inr \<lparr>BaselineRecord.path = p, hash = h, size_bytes = s, mtime = m\<rparr>
      | _ \<Rightarrow> Inl IllTyped)"

fun load_items :: "(string \<times> 'f json) list \<Rightarrow> 'f baseline \<Rightarrow> error + 'f baseline" where
  "load_items [] baseline = Inr baseline"
| "load_items ((p, record) # rest) baseline =
     and_then (subscript record ''path'') (\<lambda>v_path.
     and_then (subscript record ''hash'') (\<lambda>v_hash.
     and_then (subscript record ''size'') (\<lambda>v_size.
     and_then (subscript record ''mtime'') (\<lambda>v_mtime.
     and_then (make_record v_path v_hash v_size v_mtime) (\<lambda>r.
       load_items rest (fmupd p r baseline))))))"

definition load_baseline :: "('f, 'h) world \<Rightarrow> string \<Rightarrow> error + 'f baseline" where
  "load_baseline w baseline_path =
     and_then (read_text w baseline_path) (\<lambda>text.
     and_then (loads w text) (\<lambda>data.
       case data of
         JObj kvs \<Rightarrow> load_items kvs fmempty
       | _ \<Rightarrow> Inl AttributeError))"

section \<open>Floating point\<close>

text \<open>
  The values of \<open>time.monotonic()\<close> and the arithmetic of \<open>_debounced\<close> are Python
  floats: IEEE 754 binary64 numbers, with every result rounded to the nearest number of
  53 significant bits, ties to the even one. \<open>Double m e\<close> stands for the number
  \<open>m * 2 ^ e\<close>. The range of the exponent is not bounded here; \<open>_debounced\<close> only
  compares its result with an integer, and neither an overflow nor an underflow of
  binary64 changes the outcome of that comparison.
\<close>

datatype double = Double int int

fun dval :: "double \<Rightarrow> real" where
  "dval (Double m e) = (if 0 \<le> e then of_int m * 2 ^ nat e else of_int m / 2 ^ nat (- e))"

text \<open>\<open>m / q\<close> rounded to the nearest integer, a tie to the even one.\<close>

definition round_half_even :: "int \<Rightarrow> int \<Rightarrow> int" where
  "round_half_even m q =
     (let d = m div q; r = m mod q
      in if 2 * r < q then d else if q < 2 * r then d + 1 else if even d then d else d + 1)"

text \<open>Rounding of an exact result to 53 significant bits.\<close>

fun round53 :: "double \<Rightarrow> double" where
  "round53 (Double m e) =
     (let k = bitlen \<bar>m\<bar> - 53
      in if k \<le> 0 then Double m e
         else Double (round_half_even m (2 ^ nat k)) (e + k))"

text \<open>\<open>a - b\<close> and \<open>a * b\<close> on floats; \<open>float(n)\<close>; and the comparison \<open>x < n\<close> of a
  float with an \<open>int\<close>, which Python decides exactly.\<close>

fun float_sub :: "double \<Rightarrow> double \<Rightarrow> double" where
  "float_sub (Double m1 e1) (Double m2 e2) =
     (let e = min e1 e2
      in round53 (Double (m1 * 2 ^ nat (e1 - e) - m2 * 2 ^ nat (e2 - e)) e))"

fun float_mul :: "double \<Rightarrow> double \<Rightarrow> double" where
  "float_mul (Double m1 e1) (Double m2 e2) = round53 (Double (m1 * m2) (e1 + e2))"

definition float_of_int :: "int \<Rightarrow> double" where
  "float_of_int n = round53 (Double n 0)"

fun float_lt_int :: "double \<Rightarrow> int \<Rightarrow> bool" where
  "float_lt_int (Double m e) n =
     (if 0 \<le> e then m * 2 ^ nat e < n else m < n * 2 ^ nat (- e))"

section \<open>\<open>fim/cli.py\<close>: the event handler\<close>

text \<open>
  A file-system event, and the state of \<open>Handler\<close>: the table \<open>_last_event\<close>.
  The value of \<open>time.monotonic()\<close> read by \<open>_debounced\<close> is an argument, \<open>now\<close>.
\<close>

record Event =
  is_directory :: bool
  src_path :: string

record Handler =
  last_event :: "(string, double) fmap"

text \<open>\<open>Handler.__init__\<close>: the table starts empty.\<close>

definition new_handler :: Handler where
  "new_handler = \<lparr>last_event = fmempty\<rparr>"

text \<open>\<open>Handler._debounced\<close>; \<open>p\<close> is \<open>str(path)\<close>. The default of \<open>get\<close> is the
  \<open>int\<close> 0, and the factor is the \<open>int\<close> 1000: the arithmetic converts both to
  floats. The test is \<open>(now - last) * 1000 < config.event_debounce_ms\<close>.\<close>

definition debounced :: "'f Config \<Rightarrow> Handler \<Rightarrow> string \<Rightarrow> double \<Rightarrow> bool \<times> Handler" where
  "debounced config self p now =
     (let last = (case fmlookup (last_event self) p of
                    None \<Rightarrow> float_of_int 0
                  | Some t \<Rightarrow> t)
      in if float_lt_int (float_mul (float_sub now last) (float_of_int 1000))
              (event_debounce_ms config)
         then (True, self)
         else (False, self\<lparr>last_event := fmupd p now (last_event self)\<rparr>))"

text \<open>\<open>on_any_event\<close> returns the handler and, when it called the classifier
  \<open>build_event_change\<close>, what the classification and the report logged and whether
  they raised; \<open>None\<close> when the event was ignored.\<close>

definition on_any_event ::
  "('f, 'h) world \<Rightarrow> 'f baseline \<Rightarrow> 'f Config \<Rightarrow> Handler \<Rightarrow> Event \<Rightarrow> double
     \<Rightarrow> Handler \<times> (unit logged) option" where
  "on_any_event w baseline config self event now =
     (if is_directory event then (self, None)
      else
        let p = str_of_path w (src_path event) in
        case debounced config self p now of
          (True, self') \<Rightarrow> (self', None)
        | (False, self') \<Rightarrow>
            (self',
             Some (case build_event_change w baseline p config of
                     (entries, Inl e) \<Rightarrow> (entries, Inl e)
                   | (entries, Inr changes) \<Rightarrow>
                       (case report_changes w changes of
                          (entries', r) \<Rightarrow> (entries @ entries', r)))))"

text \<open>The handler run on a sequence of events, each with the time at which
  \<open>_debounced\<close> reads the clock.\<close>

fun watch_events ::
  "('f, 'h) world \<Rightarrow> 'f baseline \<Rightarrow> 'f Config \<Rightarrow> Handler \<Rightarrow> (Event \<times> double) list
     \<Rightarrow> (unit logged) option list" where
  "watch_events w baseline config self [] = []"
| "watch_events w baseline config self ((event, now) # rest) =
     (case on_any_event w baseline config self event now of
        (self', r) \<Rightarrow> r # watch_events w baseline config self' rest)"

section \<open>Auxiliary definitions for the statements\<close>

text \<open>The hash recorded for a path in a mapping (the empty string when the path is
  absent; it is only used for paths that are present).\<close>

definition hash_at :: "'f baseline \<Rightarrow> string \<Rightarrow> string" where
  "hash_at m p = (case fmlookup m p of None \<Rightarrow> [] | Some r \<Rightarrow> hash r)"

text \<open>The three groups of the result of \<open>compare_baseline\<close>, written without the
  possibility of failure.\<close>

definition created_list :: "'f baseline \<Rightarrow> 'f baseline \<Rightarrow> Change list" where
  "created_list B C =
     map (\<lambda>p. \<lparr>change_type = ''created'', path = p,
                 details = fmap_of_list [(''hash'', hash_at C p)]\<rparr>)
       (sorted_list_of_set (fmdom' C - fmdom' B))"

definition deleted_list :: "'f baseline \<Rightarrow> 'f baseline \<Rightarrow> Change list" where
  "deleted_list B C =
     map (\<lambda>p. \<lparr>change_type = ''deleted'', path = p,
                 details = fmap_of_list [(''hash'', hash_at B p)]\<rparr>)
       (sorted_list_of_set (fmdom' B - fmdom' C))"

definition modified_list :: "'f baseline \<Rightarrow> 'f baseline \<Rightarrow> Change list" where
  "modified_list B C =
     map (\<lambda>p. \<lparr>change_type = ''modified'', path = p,
                 details = fmap_of_list
                   [(''before'', hash_at B p), (''after'', hash_at C p)]\<rparr>)
       (filter (\<lambda>p. hash_at B p \<noteq> hash_at C p)
          (sorted_list_of_set (fmdom' B \<inter> fmdom' C)))"

text \<open>Two records that differ at most in their \<open>size\<close> and \<open>mtime\<close> fields.\<close>

definition differ_only_size_mtime :: "'f BaselineRecord \<Rightarrow> 'f BaselineRecord \<Rightarrow> bool" where
  "differ_only_size_mtime r r' \<longleftrightarrow>
     r' = r\<lparr>size_bytes := size_bytes r', mtime := mtime r'\<rparr>"

subsection \<open>Concrete data\<close>

text \<open>The example of the specification: baseline \<open>{/a: H1, /b: H2}\<close>, current
  \<open>{/b: H2, /c: H3}\<close>; and the data of \<open>tests/test_monitor.py\<close>.\<close>

definition example_baseline :: "int baseline" where
  "example_baseline = fmap_of_list
     [(''/a'', \<lparr>BaselineRecord.path = ''/a'', hash = ''H1'', size_bytes = 10, mtime = 1\<rparr>),
      (''/b'', \<lparr>BaselineRecord.path = ''/b'', hash = ''H2'', size_bytes = 11, mtime = 2\<rparr>)]"

definition example_current :: "int baseline" where
  "example_current = fmap_of_list
     [(''/b'', \<lparr>BaselineRecord.path = ''/b'', hash = ''H2'', size_bytes = 11, mtime = 2\<rparr>),
      (''/c'', \<lparr>BaselineRecord.path = ''/c'', hash = ''H3'', size_bytes = 12, mtime = 3\<rparr>)]"

definition example_baseline_touched :: "int baseline" where
  "example_baseline_touched = fmap_of_list
     [(''/a'', \<lparr>BaselineRecord.path = ''/a'', hash = ''H1'', size_bytes = 99, mtime = 7\<rparr>),
      (''/b'', \<lparr>BaselineRecord.path = ''/b'', hash = ''H2'', size_bytes = 11, mtime = 8\<rparr>)]"

definition example_current_touched :: "int baseline" where
  "example_current_touched = fmap_of_list
     [(''/b'', \<lparr>BaselineRecord.path = ''/b'', hash = ''H2'', size_bytes = 0, mtime = 2\<rparr>),
      (''/c'', \<lparr>BaselineRecord.path = ''/c'', hash = ''H3'', size_bytes = 12, mtime = 5\<rparr>)]"

definition test_baseline :: "int baseline" where
  "test_baseline = fmap_of_list
     [(''/path/deleted.txt'',
        \<lparr>BaselineRecord.path = ''/path/deleted.txt'', hash = ''oldhash'',
         size_bytes = 10, mtime = 1\<rparr>),
      (''/path/modified.txt'',
        \<lparr>BaselineRecord.path = ''/path/modified.txt'', hash = ''oldhash'',
         size_bytes = 11, mtime = 2\<rparr>)]"

definition test_current :: "int baseline" where
  "test_current = fmap_of_list
     [(''/path/created.txt'',
        \<lparr>BaselineRecord.path = ''/path/created.txt'', hash = ''newhash'',
         size_bytes = 12, mtime = 3\<rparr>),
      (''/path/modified.txt'',
        \<lparr>BaselineRecord.path = ''/path/modified.txt'', hash = ''newhash'',
         size_bytes = 11, mtime = 4\<rparr>)]"

subsection \<open>Auxiliary notions for the other components\<close>

text \<open>A change whose \<open>details\<close> hold the keys that \<open>format_change\<close> subscripts for
  its \<open>change_type\<close>, for the three types that the diff engine and the classifier
  produce.\<close>

definition details_complete :: "Change \<Rightarrow> bool" where
  "details_complete c =
     (if change_type c = ''modified''
      then ''before'' |\<in>| fmdom (details c) \<and> ''after'' |\<in>| fmdom (details c)
      else if change_type c = ''created'' \<or> change_type c = ''deleted''
      then ''hash'' |\<in>| fmdom (details c)
      else False)"

text \<open>What \<open>json.loads\<close> returns for a text written by \<open>json.dumps\<close> with
  \<open>sort_keys=True\<close>: the value with the items of every object in the order of their
  keys.\<close>

primrec sort_keys :: "'f json \<Rightarrow> 'f json" where
  "sort_keys JNull = JNull"
| "sort_keys (JBool b) = JBool b"
| "sort_keys (JInt n) = JInt n"
| "sort_keys (JFloat x) = JFloat x"
| "sort_keys (JStr s) = JStr s"
| "sort_keys (JList xs) = JList (map sort_keys xs)"
| "sort_keys (JObj kvs) = JObj (sort_key fst (map (map_prod id sort_keys) kvs))"

text \<open>An event of a run was classified when \<open>on_any_event\<close> called
  \<open>build_event_change\<close> for it; the key of an event in the debounce table.\<close>

definition classified :: "(unit logged) option \<Rightarrow> bool" where
  "classified r = (r \<noteq> None)"

definition event_key :: "('f, 'h) world \<Rightarrow> Event \<times> double \<Rightarrow> string" where
  "event_key w ev = str_of_path w (src_path (fst ev))"

text \<open>The gap in milliseconds between two clock readings as \<open>_debounced\<close> computes
  it, in floating point: \<open>(now - earlier) * 1000\<close>.\<close>

definition gap_ms :: "double \<Rightarrow> double \<Rightarrow> double" where
  "gap_ms now earlier = float_mul (float_sub now earlier) (float_of_int 1000)"

text \<open>Rounding on the real numbers, for the proofs: \<open>rne\<close> rounds to the nearest
  integer, a tie to the even one; \<open>rnd\<close> rounds to 53 significant bits.\<close>

definition rne :: "real \<Rightarrow> int" where
  "rne x =
     (let f = \<lfloor>x\<rfloor>
      in if x - of_int f < 1 / 2 then f
         else if 1 / 2 < x - of_int f then f + 1
         else if even f then f else f + 1)"

definition rnd :: "real \<Rightarrow> real" where
  "rnd x =
     (if x = 0 then 0
      else of_int (rne (x / 2 powr of_int (\<lfloor>log 2 \<bar>x\<bar>\<rfloor> - 52)))
             * 2 powr of_int (\<lfloor>log 2 \<bar>x\<bar>\<rfloor> - 52))"

subsection \<open>A concrete environment\<close>

text \<open>
  A small environment: three files under \<open>/\<close>, of which \<open>/locked\<close> cannot be opened;
  a directory \<open>/private\<close> that may not be searched, so that \<open>exists()\<close> and
  \<open>is_file()\<close> raise \<open>OSError\<close> (permission denied) for \<open>/private/x\<close>;
  a hash object that collects the chunks; \<open>sha256\<close> as the only supported algorithm;
  a configuration file whose document names the algorithm \<open>nope\<close>.
\<close>

definition example_config_data :: "int json" where
  "example_config_data =
     JObj [(''paths'', JList [JStr ''/'']), (''hash_algorithm'', JStr ''nope'')]"

definition example_world :: "(int, string) world" where
  "example_world =
     \<lparr>path_exists = (\<lambda>p. if p = ''/private/x'' then Inl OSError
                          else Inr (p \<in> set [''/b'', ''/c'', ''/locked''])),
      is_file = (\<lambda>p. if p = ''/private/x'' then Inl OSError
                      else Inr (p \<in> set [''/b'', ''/c'', ''/locked''])),
      is_symlink = (\<lambda>p. Inr False),
      rglob = (\<lambda>r. if r = ''/'' then [Inr ''/b'', Inr ''/c'', Inr ''/locked''] else []),
      open_rb = (\<lambda>p. if p = ''/b'' then Some [''B'']
                      else if p = ''/c'' then Some [''C1'', ''C2''] else None),
      stat = (\<lambda>p. if p = ''/b'' then Some (1, 20)
                   else if p = ''/c'' then Some (4, 30) else None),
      relative_to = (\<lambda>p r. Some p),
      path_match = (\<lambda>p s. Inr (p = s)),
      str_of_path = (\<lambda>s. s),
      expanduser = Inr,
      resolve = Inr,
      parent = (\<lambda>s. ''/var''),
      mkdir_ok = (\<lambda>s. True),
      writable = (\<lambda>s. True),
      files = (\<lambda>p. if p = ''/etc/fim.json'' then Some ''text of the configuration''
                    else None),
      hashlib_new = (\<lambda>a. if a = ''sha256'' then Some [] else None),
      hasher_update = (\<lambda>h c. h @ c),
      hexdigest = (\<lambda>h. Inr (''#'' @ h)),
      json_dumps = (\<lambda>v. if v = payload_of example_baseline then ''text of the baseline''
                          else ''other text''),
      json_loads = (\<lambda>t. if t = ''text of the configuration'' then Some example_config_data
                          else if t = ''text of the baseline''
                          then Some (sort_keys (payload_of example_baseline)) else None),
      repr_json = (\<lambda>v. ''repr''),
      int_of_str = (\<lambda>s. Inl ValueError),
      int_of_float = (\<lambda>x. Inr x),
      float_truthy = (\<lambda>x. x \<noteq> 0),
      str_chars = map (\<lambda>c. [c]),
      str_upper = (\<lambda>s. s)\<rparr>"

definition example_config :: "int Config" where
  "example_config =
     \<lparr>paths = [''/''], exclude_globs = [JStr ''*.tmp''], follow_symlinks = False,
      hash_algorithm = ''sha256'', baseline_file = ''/var/baseline.json'',
      log_file = ''/var/fim.log'', scan_interval_seconds = 60, event_debounce_ms = 250\<rparr>"

text \<open>The configuration that \<open>load_config\<close> builds from \<open>example_config_data\<close>.\<close>

definition example_config_nope :: "int Config" where
  "example_config_nope =
     \<lparr>paths = [''/''], exclude_globs = [], follow_symlinks = False,
      hash_algorithm = ''nope'', baseline_file = ''./baseline.json'',
      log_file = ''./logs/fim.log'', scan_interval_seconds = 60, event_debounce_ms = 250\<rparr>"

text \<open>The snapshot of the example environment.\<close>

definition example_snapshot :: "int baseline" where
  "example_snapshot = fmap_of_list
     [(''/b'', \<lparr>BaselineRecord.path = ''/b'', hash = ''#B'', size_bytes = 1, mtime = 20\<rparr>),
      (''/c'', \<lparr>BaselineRecord.path = ''/c'', hash = ''#C1C2'', size_bytes = 4, mtime = 30\<rparr>)]"

text \<open>The example environment after \<open>save_baseline\<close> wrote \<open>example_baseline\<close>.\<close>

definition example_world_saved :: "(int, string) world" where
  "example_world_saved =
     example_world\<lparr>files := (files example_world)
       (''/var/baseline.json'' := Some ''text of the baseline'')\<rparr>"

text \<open>Three events for the file \<open>/b\<close>, at the clock readings \<open>1\<close>, \<open>1.125\<close> and
  \<open>1.25\<close> seconds (the floats \<open>1\<close>, \<open>9 / 2 ^ 3\<close> and \<open>5 / 2 ^ 2\<close>); the debounce
  window of \<open>example_config\<close> is 250 ms.\<close>

definition example_events :: "(Event \<times> double) list" where
  "example_events =
     [(\<lparr>is_directory = False, src_path = ''/b''\<rparr>, Double 1 0),
      (\<lparr>is_directory = False, src_path = ''/b''\<rparr>, Double 9 (- 3)),
      (\<lparr>is_directory = False, src_path = ''/b''\<rparr>, Double 5 (- 2))]"

text \<open>Two events for the file \<open>/b\<close>, at the clock readings \<open>0.25\<close> and \<open>0.31\<close>
  seconds: the float written \<open>0.31\<close> is \<open>5584463537939415 / 2 ^ 54\<close>. The configuration
  has a debounce window of 60 ms.\<close>

definition rounding_events :: "(Event \<times> double) list" where
  "rounding_events =
     [(\<lparr>is_directory = False, src_path = ''/b''\<rparr>, Double 1 (- 2)),
      (\<lparr>is_directory = False, src_path = ''/b''\<rparr>, Double 5584463537939415 (- 54))]"

definition example_config_60 :: "int Config" where
  "example_config_60 = example_config\<lparr>event_debounce_ms := 60\<rparr>"

section \<open>Properties of the diff engine\<close>

subsection \<open>The result of \<open>compare_baseline\<close> in closed form\<close>

lemma created_changes_Inr:
  "set ps \<subseteq> fmdom' current \<Longrightarrow>
   created_changes current ps =
     Inr (map (\<lambda>p. \<lparr>change_type = ''created'', path = p,
                      details = fmap_of_list [(''hash'', hash_at current p)]\<rparr>) ps)"
  by (induction ps) (auto simp: getitem_def fmlookup_dom'_iff hash_at_def)

lemma deleted_changes_Inr:
  "set ps \<subseteq> fmdom' baseline \<Longrightarrow>
   deleted_changes baseline ps =
     Inr (map (\<lambda>p. \<lparr>change_type = ''deleted'', path = p,
                      details = fmap_of_list [(''hash'', hash_at baseline p)]\<rparr>) ps)"
  by (induction ps) (auto simp: getitem_def fmlookup_dom'_iff hash_at_def)

lemma modified_changes_Inr:
  "set ps \<subseteq> fmdom' baseline \<Longrightarrow> set ps \<subseteq> fmdom' current \<Longrightarrow>
   modified_changes baseline current ps =
     Inr (map (\<lambda>p. \<lparr>change_type = ''modified'', path = p,
                      details = fmap_of_list
                        [(''before'', hash_at baseline p), (''after'', hash_at current p)]\<rparr>)
            (filter (\<lambda>p. hash_at baseline p \<noteq> hash_at current p) ps))"
  by (induction ps) (auto simp: getitem_def fmlookup_dom'_iff hash_at_def)

text \<open>No subscript of \<open>compare_baseline\<close> fails: it always returns a list, the
  concatenation of the three groups.\<close>

lemma compare_baseline_Inr:
  "compare_baseline B C = Inr (created_list B C @ deleted_list B C @ modified_list B C)"
proof -
  have fin: "finite (fmdom' C - fmdom' B)" "finite (fmdom' B - fmdom' C)"
    "finite (fmdom' B \<inter> fmdom' C)"
    by (simp_all add: finite_fmdom')
  have c: "set (sorted_list_of_set (fmdom' C - fmdom' B)) \<subseteq> fmdom' C"
    using fin by auto
  have d: "set (sorted_list_of_set (fmdom' B - fmdom' C)) \<subseteq> fmdom' B"
    using fin by auto
  have m: "set (sorted_list_of_set (fmdom' B \<inter> fmdom' C)) \<subseteq> fmdom' B"
    "set (sorted_list_of_set (fmdom' B \<inter> fmdom' C)) \<subseteq> fmdom' C"
    using fin by auto
  show ?thesis
    unfolding compare_baseline_def Let_def
    by (simp add: created_changes_Inr [OF c] deleted_changes_Inr [OF d]
        modified_changes_Inr [OF m] created_list_def deleted_list_def modified_list_def)
qed

subsection \<open>Selecting the changes of one path or of one type\<close>

lemma filter_path_map:
  assumes "distinct ps" and "\<And>q. Change.path (f q) = q"
  shows "filter (\<lambda>c. Change.path c = p) (map f ps) = (if p \<in> set ps then [f p] else [])"
  using assms(1)
proof (induction ps)
  case Nil
  then show ?case by simp
next
  case (Cons a ps)
  then show ?case
    by (auto simp: assms(2) filter_empty_conv)
qed

lemma filter_created_list:
  "filter (\<lambda>c. Change.path c = p) (created_list B C) =
     (if p \<in> fmdom' C - fmdom' B
      then [\<lparr>change_type = ''created'', path = p,
              details = fmap_of_list [(''hash'', hash_at C p)]\<rparr>] else [])"
  unfolding created_list_def
  by (subst filter_path_map) (simp_all add: finite_fmdom')

lemma filter_deleted_list:
  "filter (\<lambda>c. Change.path c = p) (deleted_list B C) =
     (if p \<in> fmdom' B - fmdom' C
      then [\<lparr>change_type = ''deleted'', path = p,
              details = fmap_of_list [(''hash'', hash_at B p)]\<rparr>] else [])"
  unfolding deleted_list_def
  by (subst filter_path_map) (simp_all add: finite_fmdom')

lemma filter_modified_list:
  "filter (\<lambda>c. Change.path c = p) (modified_list B C) =
     (if p \<in> fmdom' B \<inter> fmdom' C \<and> hash_at B p \<noteq> hash_at C p
      then [\<lparr>change_type = ''modified'', path = p,
              details = fmap_of_list
                [(''before'', hash_at B p), (''after'', hash_at C p)]\<rparr>] else [])"
  unfolding modified_list_def
  by (subst filter_path_map) (simp_all add: finite_fmdom')

lemma filter_type_created_list:
  "filter (\<lambda>c. change_type c = t) (created_list B C) =
     (if t = ''created'' then created_list B C else [])"
  by (auto simp: created_list_def filter_empty_conv)

lemma filter_type_deleted_list:
  "filter (\<lambda>c. change_type c = t) (deleted_list B C) =
     (if t = ''deleted'' then deleted_list B C else [])"
  by (auto simp: deleted_list_def filter_empty_conv)

lemma filter_type_modified_list:
  "filter (\<lambda>c. change_type c = t) (modified_list B C) =
     (if t = ''modified'' then modified_list B C else [])"
  by (auto simp: modified_list_def filter_empty_conv)

lemma paths_created_list:
  "map Change.path (created_list B C) = sorted_list_of_set (fmdom' C - fmdom' B)"
  by (simp add: created_list_def comp_def)

lemma paths_deleted_list:
  "map Change.path (deleted_list B C) = sorted_list_of_set (fmdom' B - fmdom' C)"
  by (simp add: deleted_list_def comp_def)

lemma paths_modified_list:
  "map Change.path (modified_list B C) =
     filter (\<lambda>p. hash_at B p \<noteq> hash_at C p) (sorted_list_of_set (fmdom' B \<inter> fmdom' C))"
  by (simp add: modified_list_def comp_def)

subsection \<open>The examples of the specification and of the test suite\<close>

lemma compare_baseline_spec_example:
  "compare_baseline example_baseline example_current =
     Inr [\<lparr>change_type = ''created'', path = ''/c'',
            details = fmap_of_list [(''hash'', ''H3'')]\<rparr>,
          \<lparr>change_type = ''deleted'', path = ''/a'',
            details = fmap_of_list [(''hash'', ''H1'')]\<rparr>]"
  by code_simp

lemma compare_baseline_unit_test:
  "map_sum id (map (\<lambda>c. (change_type c, Change.path c)))
     (compare_baseline test_baseline test_current) =
     Inr [(''created'', ''/path/created.txt''),
          (''deleted'', ''/path/deleted.txt''),
          (''modified'', ''/path/modified.txt'')]"
  by code_simp

subsection \<open>Claims about \<open>compare_baseline\<close>\<close>

text \<open>
  Claim C1. For every baseline \<open>B\<close>, current mapping \<open>C\<close> and path \<open>p\<close>,
  \<open>compare_baseline B C\<close> returns a list, and the changes of that list whose path is
  \<open>p\<close> are: exactly one \<open>created\<close> change carrying the current hash when \<open>p\<close> is in
  \<open>C\<close> only; exactly one \<open>deleted\<close> change carrying the baseline hash when \<open>p\<close> is in
  \<open>B\<close> only; exactly one \<open>modified\<close> change carrying the before and after hashes when
  \<open>p\<close> is in both with different hashes; and none when \<open>p\<close> is in both with equal
  hashes, or in neither.
\<close>

theorem compare_baseline_partition:
  "\<exists>cs. compare_baseline B C = Inr cs \<and>
     filter (\<lambda>c. Change.path c = p) cs =
       (case (fmlookup B p, fmlookup C p) of
          (None, None) \<Rightarrow> []
        | (None, Some c) \<Rightarrow>
            [\<lparr>change_type = ''created'', path = p,
              details = fmap_of_list [(''hash'', hash c)]\<rparr>]
        | (Some b, None) \<Rightarrow>
            [\<lparr>change_type = ''deleted'', path = p,
              details = fmap_of_list [(''hash'', hash b)]\<rparr>]
        | (Some b, Some c) \<Rightarrow>
            (if hash b \<noteq> hash c
             then [\<lparr>change_type = ''modified'', path = p,
                     details = fmap_of_list [(''before'', hash b), (''after'', hash c)]\<rparr>]
             else []))"
  by (auto simp: compare_baseline_Inr filter_created_list filter_deleted_list
      filter_modified_list fmlookup_dom'_iff hash_at_def split: option.splits)

theorem compare_baseline_partition_witness:
  "(\<exists>cs. compare_baseline example_baseline example_current = Inr cs \<and>
      filter (\<lambda>c. Change.path c = ''/c'') cs =
        [\<lparr>change_type = ''created'', path = ''/c'',
          details = fmap_of_list [(''hash'', ''H3'')]\<rparr>]) \<and>
   (\<exists>cs. compare_baseline example_baseline example_current = Inr cs \<and>
      filter (\<lambda>c. Change.path c = ''/a'') cs =
        [\<lparr>change_type = ''deleted'', path = ''/a'',
          details = fmap_of_list [(''hash'', ''H1'')]\<rparr>]) \<and>
   (\<exists>cs. compare_baseline example_baseline example_current = Inr cs \<and>
      filter (\<lambda>c. Change.path c = ''/b'') cs = []) \<and>
   (\<exists>cs. compare_baseline test_baseline test_current = Inr cs \<and>
      filter (\<lambda>c. Change.path c = ''/path/modified.txt'') cs =
        [\<lparr>change_type = ''modified'', path = ''/path/modified.txt'',
          details = fmap_of_list [(''before'', ''oldhash''), (''after'', ''newhash'')]\<rparr>])"
  using compare_baseline_partition [of example_baseline example_current "''/c''"]
    compare_baseline_partition [of example_baseline example_current "''/a''"]
    compare_baseline_partition [of example_baseline example_current "''/b''"]
    compare_baseline_partition [of test_baseline test_current "''/path/modified.txt''"]
  by (simp add: example_baseline_def example_current_def test_baseline_def test_current_def
      fmlookup_of_list)

text \<open>
  Claim C3. The list returned by \<open>compare_baseline B C\<close> consists of its \<open>created\<close>
  changes, followed by its \<open>deleted\<close> changes, followed by its \<open>modified\<close> changes,
  and within each of the three groups the paths are in ascending lexicographic order.
\<close>

theorem compare_baseline_ordered:
  "\<exists>cs. compare_baseline B C = Inr cs \<and>
     cs = filter (\<lambda>c. change_type c = ''created'') cs
          @ filter (\<lambda>c. change_type c = ''deleted'') cs
          @ filter (\<lambda>c. change_type c = ''modified'') cs \<and>
     sorted (map Change.path (filter (\<lambda>c. change_type c = ''created'') cs)) \<and>
     sorted (map Change.path (filter (\<lambda>c. change_type c = ''deleted'') cs)) \<and>
     sorted (map Change.path (filter (\<lambda>c. change_type c = ''modified'') cs))"
  by (simp add: compare_baseline_Inr filter_type_created_list filter_type_deleted_list
      filter_type_modified_list paths_created_list paths_deleted_list paths_modified_list
      sorted_wrt_filter)

theorem compare_baseline_ordered_witness:
  "\<exists>cs. compare_baseline test_baseline test_current = Inr cs \<and>
     cs = filter (\<lambda>c. change_type c = ''created'') cs
          @ filter (\<lambda>c. change_type c = ''deleted'') cs
          @ filter (\<lambda>c. change_type c = ''modified'') cs \<and>
     sorted (map Change.path (filter (\<lambda>c. change_type c = ''created'') cs)) \<and>
     sorted (map Change.path (filter (\<lambda>c. change_type c = ''deleted'') cs)) \<and>
     sorted (map Change.path (filter (\<lambda>c. change_type c = ''modified'') cs))"
  using compare_baseline_ordered [of test_baseline test_current] by simp

text \<open>
  Claim C7. For every path \<open>p\<close>, the list returned by \<open>compare_baseline B C\<close> contains
  at most one change whose path is \<open>p\<close>.
\<close>

theorem compare_baseline_one_per_path:
  "\<exists>cs. compare_baseline B C = Inr cs \<and>
     length (filter (\<lambda>c. Change.path c = p) cs) \<le> 1"
  by (simp add: compare_baseline_Inr filter_created_list filter_deleted_list
      filter_modified_list)

theorem compare_baseline_one_per_path_witness:
  "\<exists>cs. compare_baseline test_baseline test_current = Inr cs \<and>
     length (filter (\<lambda>c. Change.path c = ''/path/modified.txt'') cs) \<le> 1"
  using compare_baseline_one_per_path [of test_baseline test_current "''/path/modified.txt''"]
  by simp

lemma hash_at_rel:
  assumes "fmrel differ_only_size_mtime B B'"
  shows "hash_at B' p = hash_at B p"
proof -
  have "rel_option differ_only_size_mtime (fmlookup B p) (fmlookup B' p)"
    using assms by (simp add: fmrel_iff)
  then show ?thesis
    by (cases "fmlookup B p"; cases "fmlookup B' p")
       (auto simp: hash_at_def differ_only_size_mtime_def
          dest: arg_cong [where f = hash])
qed

text \<open>
  Claim C6. If \<open>B'\<close> and \<open>C'\<close> have the same keys as \<open>B\<close> and \<open>C\<close> and their records
  differ from those of \<open>B\<close> and \<open>C\<close> at most in the \<open>size\<close> and \<open>mtime\<close> fields, then
  \<open>compare_baseline B' C'\<close> and \<open>compare_baseline B C\<close> are equal.
\<close>

theorem compare_baseline_ignores_size_mtime:
  assumes "fmrel differ_only_size_mtime B B'" and "fmrel differ_only_size_mtime C C'"
  shows "compare_baseline B' C' = compare_baseline B C"
proof -
  have "fmdom' B' = fmdom' B" "fmdom' C' = fmdom' C"
    using assms by (simp_all add: fmrel_fmdom'_eq)
  moreover have "hash_at B' = hash_at B" "hash_at C' = hash_at C"
    using assms by (auto simp: hash_at_rel)
  ultimately show ?thesis
    by (simp add: compare_baseline_Inr created_list_def deleted_list_def modified_list_def)
qed

theorem compare_baseline_ignores_size_mtime_witness:
  "fmrel differ_only_size_mtime example_baseline example_baseline_touched \<and>
   fmrel differ_only_size_mtime example_current example_current_touched \<and>
   example_baseline_touched \<noteq> example_baseline \<and>
   compare_baseline example_baseline_touched example_current_touched =
     compare_baseline example_baseline example_current"
proof -
  have b: "fmrel differ_only_size_mtime example_baseline example_baseline_touched"
    by code_simp
  have c: "fmrel differ_only_size_mtime example_current example_current_touched"
    by code_simp
  have n: "example_baseline_touched \<noteq> example_baseline"
    by code_simp
  show ?thesis
    using compare_baseline_ignores_size_mtime [OF b c] b c n by simp
qed

section \<open>The incremental classifier\<close>




section \<open>The snapshot builder and the baseline builder\<close>

lemma build_baseline_files_eq:
  "build_baseline_files w config r ps d = snapshot_files w config r ps d"
proof (induction ps arbitrary: d)
  case Nil
  then show ?case by simp
next
  case (Cons q ps)
  then show ?case
    by (cases q) (simp_all split: sum.splits bool.splits option.splits prod.splits)
qed

lemma build_baseline_roots_eq:
  "build_baseline_roots w config rs d = snapshot_roots w config rs d"
  by (induction rs arbitrary: d)
     (simp_all add: build_baseline_files_eq split: sum.splits prod.splits)

text \<open>
  Claim C9. For every environment and configuration, \<open>build_baseline\<close> and \<open>snapshot\<close>
  log the same entries and return the same mapping, or raise the same exception.
\<close>

theorem build_baseline_eq_snapshot: "build_baseline w config = snapshot w config"
  by (simp add: build_baseline_def snapshot_def build_baseline_roots_eq)

theorem build_baseline_eq_snapshot_witness:
  "build_baseline example_world example_config =
     ([SkippingWarning ''/locked'' OSError], Inr example_snapshot)"
proof -
  have "snapshot example_world example_config =
          ([SkippingWarning ''/locked'' OSError], Inr example_snapshot)"
    by code_simp
  then show ?thesis
    using build_baseline_eq_snapshot [of example_world example_config] by simp
qed

section \<open>The reporter\<close>

lemma details_complete_format:
  "details_complete c \<Longrightarrow> \<exists>s. format_change w c = Inr s"
  by (auto simp: details_complete_def format_change_def and_then_def getitem_def
      fmlookup_dom_iff split: if_splits)

lemma compare_baseline_details:
  assumes "compare_baseline B C = Inr cs" and "c \<in> set cs"
  shows "details_complete c"
  using assms
  by (auto simp: compare_baseline_Inr created_list_def deleted_list_def modified_list_def
      details_complete_def fmdom_of_list)

lemma build_event_change_details:
  assumes "build_event_change w B p config = (entries, Inr cs)" and "c \<in> set cs"
  shows "details_complete c"
  using assms
  by (auto simp: build_event_change_def details_complete_def getitem_def fmdom_of_list
      split: if_splits sum.splits option.splits bool.splits)

text \<open>
  Claim C10. Every change in the list returned by \<open>compare_baseline\<close>, and every change
  in a list returned by \<open>build_event_change\<close>, has in its \<open>details\<close> the keys that
  \<open>format_change\<close> subscripts for its type (\<open>before\<close> and \<open>after\<close> for \<open>modified\<close>,
  \<open>hash\<close> for \<open>created\<close> and \<open>deleted\<close>), and \<open>format_change\<close> returns a string for
  it: it does not raise \<open>KeyError\<close>.
\<close>

theorem format_change_total:
  "(compare_baseline B C = Inr cs \<longrightarrow> c \<in> set cs \<longrightarrow>
      details_complete c \<and> (\<exists>s. format_change w c = Inr s)) \<and>
   (build_event_change w B' p config = (entries, Inr cs') \<longrightarrow> c' \<in> set cs' \<longrightarrow>
      details_complete c' \<and> (\<exists>s. format_change w c' = Inr s))"
  using compare_baseline_details build_event_change_details details_complete_format
  by blast

theorem format_change_total_witness:
  "compare_baseline example_baseline example_current =
     Inr [\<lparr>change_type = ''created'', path = ''/c'',
            details = fmap_of_list [(''hash'', ''H3'')]\<rparr>,
          \<lparr>change_type = ''deleted'', path = ''/a'',
            details = fmap_of_list [(''hash'', ''H1'')]\<rparr>] \<and>
   details_complete \<lparr>change_type = ''deleted'', path = ''/a'',
                      details = fmap_of_list [(''hash'', ''H1'')]\<rparr> \<and>
   (\<exists>s. format_change example_world
           \<lparr>change_type = ''deleted'', path = ''/a'',
             details = fmap_of_list [(''hash'', ''H1'')]\<rparr> = Inr s) \<and>
   build_event_change example_world example_baseline ''/b'' example_config =
     ([], Inr [\<lparr>change_type = ''modified'', path = ''/b'',
                details = fmap_of_list [(''before'', ''H2''), (''after'', ''#B'')]\<rparr>]) \<and>
   details_complete \<lparr>change_type = ''modified'', path = ''/b'',
                      details = fmap_of_list [(''before'', ''H2''), (''after'', ''#B'')]\<rparr> \<and>
   (\<exists>s. format_change example_world
           \<lparr>change_type = ''modified'', path = ''/b'',
             details = fmap_of_list [(''before'', ''H2''), (''after'', ''#B'')]\<rparr> = Inr s)"
proof -
  have d: "compare_baseline example_baseline example_current =
     Inr [\<lparr>change_type = ''created'', path = ''/c'',
            details = fmap_of_list [(''hash'', ''H3'')]\<rparr>,
          \<lparr>change_type = ''deleted'', path = ''/a'',
            details = fmap_of_list [(''hash'', ''H1'')]\<rparr>]"
    by code_simp
  have e: "build_event_change example_world example_baseline ''/b'' example_config =
     ([], Inr [\<lparr>change_type = ''modified'', path = ''/b'',
                details = fmap_of_list [(''before'', ''H2''), (''after'', ''#B'')]\<rparr>])"
    by code_simp
  show ?thesis
    using format_change_total
      [where B = example_baseline and C = example_current
         and cs = "[\<lparr>change_type = ''created'', path = ''/c'',
                      details = fmap_of_list [(''hash'', ''H3'')]\<rparr>,
                    \<lparr>change_type = ''deleted'', path = ''/a'',
                      details = fmap_of_list [(''hash'', ''H1'')]\<rparr>]"
         and c = "\<lparr>change_type = ''deleted'', path = ''/a'',
                    details = fmap_of_list [(''hash'', ''H1'')]\<rparr>"
         and w = example_world and B' = example_baseline and p = "''/b''"
         and config = example_config and entries = "[]"
         and cs' = "[\<lparr>change_type = ''modified'', path = ''/b'',
                       details = fmap_of_list
                         [(''before'', ''H2''), (''after'', ''#B'')]\<rparr>]"
         and c' = "\<lparr>change_type = ''modified'', path = ''/b'',
                     details = fmap_of_list [(''before'', ''H2''), (''after'', ''#B'')]\<rparr>"]
      d e
    by simp
qed

section \<open>Configuration loading and the hash algorithm\<close>

lemma dict_get_cons_other:
  "k \<noteq> k' \<Longrightarrow> dict_get ((k', v) # kvs) k d = dict_get kvs k d"
  by (simp add: dict_get_def)

lemma dict_get_cons_same: "dict_get ((k, v) # kvs) k d = v"
  by (simp add: dict_get_def)

lemma load_config_data_hash_algorithm:
  assumes "load_config_data w (JObj kvs) = Inr cfg"
  shows "hash_algorithm cfg = py_str w (dict_get kvs ''hash_algorithm'' (JStr ''sha256''))"
  using assms
  by (auto simp: load_config_data_def and_then_def split: sum.splits if_splits)

lemma load_config_data_set_algorithm:
  assumes "load_config_data w (JObj kvs) = Inr cfg"
  shows "load_config_data w (JObj ((''hash_algorithm'', JStr a) # kvs)) =
           Inr (cfg\<lparr>hash_algorithm := a\<rparr>)"
  using assms
  by (auto simp: load_config_data_def and_then_def dict_get_cons_other dict_get_cons_same
      py_str_def split: sum.splits if_splits)

lemma compute_file_hash_unsupported:
  "hashlib_new w a = None \<Longrightarrow> compute_file_hash w p a = Inl ValueError"
  by (simp add: compute_file_hash_def)

lemma load_config_document:
  assumes "load_config w config_path = Inr cfg"
  shows "\<exists>text kvs. files w config_path = Some text \<and> json_loads w text = Some (JObj kvs) \<and>
           load_config_data w (JObj kvs) = Inr cfg"
proof -
  from assms obtain content where content: "files w config_path = Some content"
    by (auto simp: load_config_def read_text_def and_then_def split: option.splits)
  with assms obtain data where data: "json_loads w content = Some data"
    and cfg: "load_config_data w data = Inr cfg"
    by (auto simp: load_config_def read_text_def loads_def and_then_def split: option.splits)
  from cfg obtain kvs where "data = JObj kvs"
    by (cases data) (simp_all add: load_config_data_def)
  with content data cfg show ?thesis by blast
qed

text \<open>
  Claim C4, as the code has it. \<open>load_config\<close> does not check the hash algorithm.
  When it succeeds on a configuration file, the file holds a JSON object, the
  \<open>hash_algorithm\<close> of the result is \<open>str\<close> of the value the object gives (\<open>sha256\<close>
  when it gives none), and \<open>load_config\<close> equally succeeds on that object with any
  string \<open>a\<close> as its \<open>hash_algorithm\<close>, supported or not, returning the same
  configuration with \<open>hash_algorithm = a\<close>. An algorithm that \<open>hashlib.new\<close> does not
  support makes \<open>compute_file_hash\<close> raise \<open>ValueError\<close>, for every file it is called
  on.
\<close>

theorem load_config_accepts_any_algorithm:
  assumes "load_config w config_path = Inr cfg"
  shows "\<exists>text kvs. files w config_path = Some text \<and> json_loads w text = Some (JObj kvs) \<and>
           hash_algorithm cfg = py_str w (dict_get kvs ''hash_algorithm'' (JStr ''sha256'')) \<and>
           load_config_data w (JObj ((''hash_algorithm'', JStr a) # kvs)) =
             Inr (cfg\<lparr>hash_algorithm := a\<rparr>) \<and>
           (hashlib_new w a = None \<longrightarrow> compute_file_hash w p a = Inl ValueError)"
  using load_config_document [OF assms] load_config_data_hash_algorithm
    load_config_data_set_algorithm compute_file_hash_unsupported
  by blast

theorem load_config_accepts_any_algorithm_witness:
  "load_config example_world ''/etc/fim.json'' = Inr example_config_nope \<and>
   (\<exists>text kvs. files example_world ''/etc/fim.json'' = Some text \<and>
      json_loads example_world text = Some (JObj kvs) \<and>
      hash_algorithm example_config_nope =
        py_str example_world (dict_get kvs ''hash_algorithm'' (JStr ''sha256'')) \<and>
      load_config_data example_world (JObj ((''hash_algorithm'', JStr ''whirlpool'') # kvs)) =
        Inr (example_config_nope\<lparr>hash_algorithm := ''whirlpool''\<rparr>) \<and>
      compute_file_hash example_world ''/b'' ''whirlpool'' = Inl ValueError)"
proof -
  have l: "load_config example_world ''/etc/fim.json'' = Inr example_config_nope"
    by code_simp
  have n: "hashlib_new example_world ''whirlpool'' = None"
    by (simp add: example_world_def)
  show ?thesis
    using load_config_accepts_any_algorithm
      [OF l, where a = "''whirlpool''" and p = "''/b''"] l n
    by simp
qed

text \<open>
  Claim C4 as stated fails: the configuration file of the example environment names
  the algorithm \<open>nope\<close>, which \<open>hashlib.new\<close> does not support there; \<open>load_config\<close>
  returns a configuration with that algorithm, and the first call of
  \<open>compute_file_hash\<close> with it raises \<open>ValueError\<close>, which ends \<open>snapshot\<close>.
\<close>

theorem load_config_unsupported_algorithm_counterexample:
  "hashlib_new example_world ''nope'' = None \<and>
   load_config example_world ''/etc/fim.json'' = Inr example_config_nope \<and>
   hash_algorithm example_config_nope = ''nope'' \<and>
   compute_file_hash example_world ''/b'' (hash_algorithm example_config_nope)
     = Inl ValueError \<and>
   snapshot example_world example_config_nope = ([], Inl ValueError)"
  by code_simp

section \<open>The baseline store\<close>

lemma sort_keys_asdict:
  "sort_keys (asdict r) =
     JObj [(''hash'', JStr (hash r)), (''mtime'', JFloat (mtime r)),
           (''path'', JStr (BaselineRecord.path r)), (''size'', JInt (size_bytes r))]"
  by (simp add: asdict_def)

lemma load_items_sorted:
  "load_items (map (\<lambda>item. (fst item, sort_keys (asdict (snd item)))) kvs) acc =
     Inr (fold (\<lambda>item. fmupd (fst item) (snd item)) kvs acc)"
proof (induction kvs arbitrary: acc)
  case Nil
  then show ?case by simp
next
  case (Cons kv kvs)
  obtain k r where kv: "kv = (k, r)" by (cases kv)
  have r: "\<lparr>BaselineRecord.path = BaselineRecord.path r, hash = hash r,
             size_bytes = size_bytes r, mtime = mtime r\<rparr> = r"
    by (cases r) simp
  show ?case
    by (simp add: kv Cons.IH [unfolded sort_keys_asdict] sort_keys_asdict subscript_def
        and_then_def make_record_def r)
qed

lemma fmlookup_fold_fmupd:
  "distinct (map fst kvs) \<Longrightarrow>
   fmlookup (fold (\<lambda>item. fmupd (fst item) (snd item)) kvs acc) k =
     (case map_of kvs k of None \<Rightarrow> fmlookup acc k | Some r \<Rightarrow> Some r)"
proof (induction kvs arbitrary: acc)
  case Nil
  then show ?case by simp
next
  case (Cons kv kvs)
  then show ?case
    by (cases kv) (auto split: option.splits dest: map_of_SomeD simp: rev_image_eqI)
qed

lemma distinct_sorted_list_of_fmap: "distinct (map fst (sorted_list_of_fmap m))"
  by (simp add: sorted_list_of_fmap_def comp_def sorted_list_of_fset.rep_eq)

lemma sorted_sorted_list_of_fmap: "sorted (map fst (sorted_list_of_fmap m))"
  by (simp add: sorted_list_of_fmap_def comp_def sorted_list_of_fset.rep_eq)

lemma fold_sorted_list_of_fmap:
  "fold (\<lambda>item. fmupd (fst item) (snd item)) (sorted_list_of_fmap B) fmempty = B"
  by (rule fmap_ext)
     (simp add: fmlookup_fold_fmupd distinct_sorted_list_of_fmap split: option.splits)

lemma sort_keys_payload:
  "sort_keys (payload_of B) =
     JObj (map (\<lambda>item. (fst item, sort_keys (asdict (snd item)))) (sorted_list_of_fmap B))"
proof -
  have "sorted (map fst (map (\<lambda>item. (fst item, sort_keys (asdict (snd item))))
          (sorted_list_of_fmap B)))"
    using sorted_sorted_list_of_fmap [of B] by (simp add: comp_def)
  then show ?thesis
    by (simp add: payload_of_def comp_def map_prod_def case_prod_beta sort_key_id_if_sorted)
qed

text \<open>
  Claim C5. For every baseline \<open>B\<close> (empty or not): if \<open>save_baseline\<close> succeeds in
  writing \<open>B\<close> to \<open>destination\<close>, and the JSON library reads the text it wrote for the
  payload back as that payload (with the keys in sorted order, as \<open>sort_keys=True\<close>
  wrote them), then \<open>load_baseline\<close> of \<open>destination\<close> in the resulting environment
  returns \<open>B\<close>: the same keys, and for each key a record with the same \<open>path\<close>,
  \<open>hash\<close>, \<open>size\<close> and \<open>mtime\<close>.
\<close>

theorem save_load_roundtrip:
  assumes "save_baseline w B destination = Inr w'"
    and "json_loads w (json_dumps w (payload_of B)) = Some (sort_keys (payload_of B))"
  shows "load_baseline w' destination = Inr B"
proof -
  from assms(1)
  have w': "w' = w\<lparr>files := (files w)(destination := Some (json_dumps w (payload_of B)))\<rparr>"
    by (auto simp: save_baseline_def split: if_splits)
  show ?thesis
    by (simp add: w' load_baseline_def read_text_def loads_def and_then_def assms(2)
        sort_keys_payload load_items_sorted fold_sorted_list_of_fmap)
qed

theorem save_load_roundtrip_witness:
  "save_baseline example_world example_baseline ''/var/baseline.json''
     = Inr example_world_saved \<and>
   json_loads example_world (json_dumps example_world (payload_of example_baseline))
     = Some (sort_keys (payload_of example_baseline)) \<and>
   example_baseline \<noteq> fmempty \<and>
   load_baseline example_world_saved ''/var/baseline.json'' = Inr example_baseline"
proof -
  have s: "save_baseline example_world example_baseline ''/var/baseline.json''
             = Inr example_world_saved"
    by (simp add: save_baseline_def example_world_saved_def example_world_def)
  have j: "json_loads example_world (json_dumps example_world (payload_of example_baseline))
             = Some (sort_keys (payload_of example_baseline))"
    by (simp add: example_world_def)
  have n: "example_baseline \<noteq> fmempty"
    by code_simp
  show ?thesis
    using save_load_roundtrip [OF s j] s j n by simp
qed

section \<open>Floating-point rounding\<close>

text \<open>The value of a float, the rounding of integers, and the comparison with an
  integer, in terms of real numbers.\<close>

lemma dval_powr: "dval (Double m e) = of_int m * 2 powr of_int e"
  by (auto simp: powr_realpow [symmetric] powr_minus field_simps)

lemma rne_of_int [simp]: "rne (of_int n) = n"
  by (simp add: rne_def)

lemma rne_mono: "x \<le> y \<Longrightarrow> rne x \<le> rne y"
proof (cases "\<lfloor>x\<rfloor> = \<lfloor>y\<rfloor>")
  case True
  assume "x \<le> y"
  with True show ?thesis
    unfolding rne_def Let_def by auto
next
  case False
  assume le: "x \<le> y"
  with False have lt: "\<lfloor>x\<rfloor> < \<lfloor>y\<rfloor>"
    using floor_mono [OF le] by linarith
  have "rne x \<le> \<lfloor>x\<rfloor> + 1"
    unfolding rne_def Let_def by auto
  moreover have "\<lfloor>y\<rfloor> \<le> rne y"
    unfolding rne_def Let_def by auto
  ultimately show ?thesis using lt by linarith
qed

lemma rhe_rne:
  assumes "0 < q"
  shows "round_half_even m q = rne (of_int m / of_int q)"
proof -
  have f: "\<lfloor>real_of_int m / real_of_int q\<rfloor> = m div q"
    by (simp add: floor_divide_of_int_eq)
  have "real_of_int m = real_of_int q * real_of_int (m div q) + real_of_int (m mod q)"
    by (simp flip: of_int_mult of_int_add)
  then have r: "real_of_int m / real_of_int q - of_int (m div q) = of_int (m mod q) / of_int q"
    using assms by (simp add: field_simps)
  have a: "(real_of_int (m mod q) / of_int q < 1 / 2) = (2 * (m mod q) < q)"
  proof -
    have "(real_of_int (m mod q) / of_int q < 1 / 2) = (2 * real_of_int (m mod q) < of_int q)"
      using assms by (simp add: field_simps)
    also have "\<dots> = (2 * (m mod q) < q)" by linarith
    finally show ?thesis .
  qed
  have b: "(1 / 2 < real_of_int (m mod q) / of_int q) = (q < 2 * (m mod q))"
  proof -
    have "(1 / 2 < real_of_int (m mod q) / of_int q) = (of_int q < 2 * real_of_int (m mod q))"
      using assms by (simp add: field_simps)
    also have "\<dots> = (q < 2 * (m mod q))" by linarith
    finally show ?thesis .
  qed
  show ?thesis
    unfolding round_half_even_def rne_def Let_def f r a b by simp
qed

text \<open>\<open>round53\<close> is the rounding \<open>rnd\<close> of the value, and \<open>rnd\<close> is monotone on the
  non-negative numbers.\<close>

lemma float_lt_int_dval: "float_lt_int x n = (dval x < of_int n)"
proof (cases x)
  case (Double m e)
  show ?thesis
  proof (cases "0 \<le> e")
    case True
    have "(m * 2 ^ nat e < n) = (real_of_int (m * 2 ^ nat e) < real_of_int n)"
      by (simp only: of_int_less_iff)
    then show ?thesis using True Double by simp
  next
    case False
    have "(m < n * 2 ^ nat (- e)) = (real_of_int m < real_of_int (n * 2 ^ nat (- e)))"
      by (simp only: of_int_less_iff)
    then show ?thesis using False Double by (simp add: field_simps)
  qed
qed

lemma floor_log_mantissa:
  assumes "0 < m"
  shows "\<lfloor>log 2 (real_of_int m * 2 powr real_of_int e)\<rfloor> = bitlen m - 1 + e"
proof -
  have "log 2 (real_of_int m * 2 powr real_of_int e) = log 2 (real_of_int m) + real_of_int e"
    using assms by (simp add: log_mult)
  then show ?thesis
    using assms by (simp add: bitlen_alt_def)
qed

lemma dval_round53:
  assumes "0 \<le> m"
  shows "dval (round53 (Double m e)) = rnd (dval (Double m e))"
proof (cases "m = 0")
  case True
  then show ?thesis by (simp add: rnd_def)
next
  case False
  with assms have m: "0 < m" by simp
  define k where "k = bitlen m - 53"
  define x where "x = real_of_int m * 2 powr real_of_int e"
  have x: "0 < x" "x \<noteq> 0" "\<bar>x\<bar> = x" using m by (simp_all add: x_def)
  have dx: "dval (Double m e) = x" by (simp only: dval_powr x_def)
  have E: "\<lfloor>log 2 \<bar>x\<bar>\<rfloor> - 52 = k + e"
    using floor_log_mantissa [OF m, of e] x by (simp add: x_def k_def)
  have q: "x / 2 powr real_of_int (k + e) = real_of_int m * 2 powr (- real_of_int k)"
    by (simp add: x_def powr_add powr_minus field_simps)
  have "rnd x = of_int (rne (x / 2 powr of_int (\<lfloor>log 2 \<bar>x\<bar>\<rfloor> - 52)))
                  * 2 powr of_int (\<lfloor>log 2 \<bar>x\<bar>\<rfloor> - 52)"
    using x(2) by (simp only: rnd_def if_False)
  then have r: "rnd x = of_int (rne (real_of_int m * 2 powr (- real_of_int k)))
                          * 2 powr real_of_int (k + e)"
    by (simp only: E q)
  show ?thesis
  proof (cases "k \<le> 0")
    case True
    have "real_of_int m * 2 powr (- real_of_int k) = real_of_int (m * 2 ^ nat (- k))"
      using True by (simp add: powr_realpow [symmetric])
    then have "rne (real_of_int m * 2 powr (- real_of_int k)) = m * 2 ^ nat (- k)"
      by (simp only: rne_of_int)
    then have "rnd x = real_of_int (m * 2 ^ nat (- k)) * 2 powr real_of_int (k + e)"
      using r by simp
    also have "\<dots> = real_of_int m * 2 powr (- real_of_int k) * 2 powr real_of_int (k + e)"
      using True by (simp add: powr_realpow [symmetric])
    also have "\<dots> = x"
      by (simp add: x_def powr_add powr_minus field_simps)
    finally have "rnd x = x" .
    moreover have "round53 (Double m e) = Double m e"
      using True m by (simp add: k_def)
    ultimately show ?thesis by (simp only: dx)
  next
    case False
    then have k: "0 < k" by simp
    have "real_of_int m * 2 powr (- real_of_int k) = real_of_int m / real_of_int (2 ^ nat k)"
      using k by (simp add: powr_minus powr_realpow [symmetric] field_simps)
    then have "rne (real_of_int m * 2 powr (- real_of_int k)) = round_half_even m (2 ^ nat k)"
      by (simp add: rhe_rne)
    then have "rnd x = real_of_int (round_half_even m (2 ^ nat k)) * 2 powr real_of_int (e + k)"
      using r by (simp add: add.commute)
    moreover have "round53 (Double m e) = Double (round_half_even m (2 ^ nat k)) (e + k)"
      using k m by (simp add: k_def Let_def)
    ultimately show ?thesis by (simp only: dx, simp only: dval_powr)
  qed
qed

lemma rne_nonneg: "0 \<le> x \<Longrightarrow> 0 \<le> rne x"
  using rne_mono [of 0 x] rne_of_int [of 0] by simp

lemma rnd_nonneg: "0 \<le> x \<Longrightarrow> 0 \<le> rnd x"
  by (simp add: rnd_def rne_nonneg divide_nonneg_pos)

lemma binade:
  assumes "0 < x"
  shows "2 powr real_of_int \<lfloor>log 2 x\<rfloor> \<le> x" "x < 2 powr (real_of_int \<lfloor>log 2 x\<rfloor> + 1)"
proof -
  have "real_of_int \<lfloor>log 2 x\<rfloor> \<le> log 2 x" by simp
  then show "2 powr real_of_int \<lfloor>log 2 x\<rfloor> \<le> x"
    using assms le_log_iff [of 2 x "real_of_int \<lfloor>log 2 x\<rfloor>"] by simp
  have "log 2 x < real_of_int \<lfloor>log 2 x\<rfloor> + 1" by linarith
  then show "x < 2 powr (real_of_int \<lfloor>log 2 x\<rfloor> + 1)"
    using assms log_less_iff [of 2 x "real_of_int \<lfloor>log 2 x\<rfloor> + 1"] by simp
qed

lemma rnd_binade:
  assumes "0 < x"
  shows "2 powr real_of_int \<lfloor>log 2 x\<rfloor> \<le> rnd x"
    and "rnd x \<le> 2 powr (real_of_int \<lfloor>log 2 x\<rfloor> + 1)"
proof -
  define E where "E = \<lfloor>log 2 x\<rfloor>"
  define u where "u = 2 powr real_of_int (E - 52)"
  have u: "0 < u" by (simp add: u_def)
  have r: "rnd x = of_int (rne (x / u)) * u"
    using assms by (simp add: rnd_def E_def u_def)
  have lo: "2 powr real_of_int E = real_of_int (2 ^ 52) * u"
    by (simp add: u_def powr_diff)
  have hi: "2 powr (real_of_int E + 1) = real_of_int (2 ^ 53) * u"
    by (simp add: u_def powr_diff powr_add)
  have "real_of_int (2 ^ 52) \<le> x / u"
    using binade(1) [OF assms] u unfolding E_def [symmetric] lo by (simp add: field_simps)
  then have "rne (real_of_int (2 ^ 52)) \<le> rne (x / u)" by (rule rne_mono)
  then have "real_of_int (2 ^ 52) \<le> real_of_int (rne (x / u))"
    by (simp only: rne_of_int of_int_le_iff)
  then have "real_of_int (2 ^ 52) * u \<le> real_of_int (rne (x / u)) * u"
    using u by (simp only: mult_le_cancel_right_pos)
  then show "2 powr real_of_int \<lfloor>log 2 x\<rfloor> \<le> rnd x"
    unfolding E_def [symmetric] lo r .
  have "x / u \<le> real_of_int (2 ^ 53)"
    using binade(2) [OF assms] u unfolding E_def [symmetric] hi by (simp add: field_simps)
  then have "rne (x / u) \<le> rne (real_of_int (2 ^ 53))" by (rule rne_mono)
  then have "real_of_int (rne (x / u)) \<le> real_of_int (2 ^ 53)"
    by (simp only: rne_of_int of_int_le_iff)
  then have "real_of_int (rne (x / u)) * u \<le> real_of_int (2 ^ 53) * u"
    using u by (simp only: mult_le_cancel_right_pos)
  then show "rnd x \<le> 2 powr (real_of_int \<lfloor>log 2 x\<rfloor> + 1)"
    unfolding E_def [symmetric] hi r .
qed

lemma rnd_mono:
  assumes "0 \<le> x" and "x \<le> y"
  shows "rnd x \<le> rnd y"
proof (cases "x = 0")
  case True
  then show ?thesis using assms rnd_nonneg [of y] by (simp add: rnd_def)
next
  case False
  with assms have x: "0 < x" and y: "0 < y" by simp_all
  have le: "\<lfloor>log 2 x\<rfloor> \<le> \<lfloor>log 2 y\<rfloor>"
    using x y assms(2) by (intro floor_mono) simp
  show ?thesis
  proof (cases "\<lfloor>log 2 x\<rfloor> = \<lfloor>log 2 y\<rfloor>")
    case True
    define u where "u = 2 powr real_of_int (\<lfloor>log 2 y\<rfloor> - 52)"
    have u: "0 < u" by (simp add: u_def)
    have "x / u \<le> y / u" using assms(2) u by (simp add: divide_right_mono)
    then have "rne (x / u) \<le> rne (y / u)" by (rule rne_mono)
    then have "real_of_int (rne (x / u)) * u \<le> real_of_int (rne (y / u)) * u"
      using u by simp
    then show ?thesis
      using x y True by (simp add: rnd_def u_def)
  next
    case False
    with le have "\<lfloor>log 2 x\<rfloor> + 1 \<le> \<lfloor>log 2 y\<rfloor>" by simp
    then have "real_of_int \<lfloor>log 2 x\<rfloor> + 1 \<le> real_of_int \<lfloor>log 2 y\<rfloor>" by linarith
    then have "2 powr (real_of_int \<lfloor>log 2 x\<rfloor> + 1) \<le> 2 powr real_of_int \<lfloor>log 2 y\<rfloor>"
      by simp
    then show ?thesis
      using rnd_binade(2) [OF x] rnd_binade(1) [OF y] by linarith
  qed
qed

text \<open>The value of the computed gap; the gap computed against a later reading is not
  larger.\<close>

lemma dval_nonneg_iff: "0 \<le> dval (Double m e) \<longleftrightarrow> 0 \<le> m"
  by (simp only: dval_powr) (simp add: zero_le_mult_iff)

lemma dval_exact_sub:
  "dval (Double (m1 * 2 ^ nat (e1 - min e1 e2) - m2 * 2 ^ nat (e2 - min e1 e2)) (min e1 e2))
     = dval (Double m1 e1) - dval (Double m2 e2)"
proof -
  have a: "real_of_int (2 ^ nat (e1 - min e1 e2)) * 2 powr real_of_int (min e1 e2)
             = 2 powr real_of_int e1"
    by (simp add: powr_realpow [symmetric] powr_add [symmetric])
  have b: "real_of_int (2 ^ nat (e2 - min e1 e2)) * 2 powr real_of_int (min e1 e2)
             = 2 powr real_of_int e2"
    by (simp add: powr_realpow [symmetric] powr_add [symmetric])
  have "real_of_int (m1 * 2 ^ nat (e1 - min e1 e2) - m2 * 2 ^ nat (e2 - min e1 e2))
          * 2 powr real_of_int (min e1 e2)
        = real_of_int m1 * (real_of_int (2 ^ nat (e1 - min e1 e2)) * 2 powr real_of_int (min e1 e2))
          - real_of_int m2 * (real_of_int (2 ^ nat (e2 - min e1 e2)) * 2 powr real_of_int (min e1 e2))"
    by (simp add: algebra_simps)
  then show ?thesis
    by (simp only: dval_powr a b)
qed

lemma dval_float_sub:
  assumes "dval b \<le> dval a"
  shows "dval (float_sub a b) = rnd (dval a - dval b)"
proof -
  obtain m1 e1 where a: "a = Double m1 e1" by (cases a)
  obtain m2 e2 where b: "b = Double m2 e2" by (cases b)
  define M where "M = m1 * 2 ^ nat (e1 - min e1 e2) - m2 * 2 ^ nat (e2 - min e1 e2)"
  have v: "dval (Double M (min e1 e2)) = dval a - dval b"
    unfolding M_def a b by (rule dval_exact_sub)
  then have "0 \<le> dval (Double M (min e1 e2))" using assms by simp
  then have "0 \<le> M" by (simp only: dval_nonneg_iff)
  then have "dval (round53 (Double M (min e1 e2))) = rnd (dval (Double M (min e1 e2)))"
    by (rule dval_round53)
  moreover have "float_sub a b = round53 (Double M (min e1 e2))"
    by (simp add: a b M_def Let_def)
  ultimately show ?thesis by (simp only: v)
qed

lemma dval_float_mul:
  assumes "0 \<le> dval a" and "0 \<le> dval b"
  shows "dval (float_mul a b) = rnd (dval a * dval b)"
proof -
  obtain m1 e1 where a: "a = Double m1 e1" by (cases a)
  obtain m2 e2 where b: "b = Double m2 e2" by (cases b)
  have "0 \<le> m1" "0 \<le> m2"
    using assms by (simp_all only: a b dval_nonneg_iff)
  then have "0 \<le> m1 * m2" by simp
  then have "dval (round53 (Double (m1 * m2) (e1 + e2))) = rnd (dval (Double (m1 * m2) (e1 + e2)))"
    by (rule dval_round53)
  moreover have "dval (Double (m1 * m2) (e1 + e2)) = dval a * dval b"
    by (simp only: a b dval_powr) (simp add: powr_add)
  moreover have "float_mul a b = round53 (Double (m1 * m2) (e1 + e2))"
    by (simp add: a b)
  ultimately show ?thesis by simp
qed

lemma dval_float_of_int_1000: "dval (float_of_int 1000) = 1000"
  by code_simp

lemma dval_gap_ms:
  assumes "dval earlier \<le> dval now"
  shows "dval (gap_ms now earlier) = rnd (rnd (dval now - dval earlier) * 1000)"
proof -
  have s: "dval (float_sub now earlier) = rnd (dval now - dval earlier)"
    using assms by (rule dval_float_sub)
  have "0 \<le> dval (float_sub now earlier)"
    using assms by (simp add: s rnd_nonneg)
  then have "dval (float_mul (float_sub now earlier) (float_of_int 1000))
               = rnd (dval (float_sub now earlier) * dval (float_of_int 1000))"
    by (rule dval_float_mul) (simp add: dval_float_of_int_1000)
  then show ?thesis
    by (simp add: gap_ms_def s dval_float_of_int_1000)
qed

lemma gap_ms_mono:
  assumes "dval t0 \<le> dval l" and "dval l \<le> dval now"
  shows "dval (gap_ms now l) \<le> dval (gap_ms now t0)"
proof -
  have "rnd (dval now - dval l) \<le> rnd (dval now - dval t0)"
    using assms by (intro rnd_mono) simp_all
  moreover have "0 \<le> rnd (dval now - dval l)"
    using assms by (simp add: rnd_nonneg)
  ultimately have "rnd (rnd (dval now - dval l) * 1000) \<le> rnd (rnd (dval now - dval t0) * 1000)"
    by (intro rnd_mono) simp_all
  then show ?thesis
    using assms by (simp add: dval_gap_ms)
qed

section \<open>Debouncing\<close>

lemma on_any_event_rejects:
  assumes "fmlookup (last_event self) (str_of_path w (src_path event)) = Some l"
    and "dval t0 \<le> dval l" and "dval l \<le> dval now"
    and "float_lt_int (gap_ms now t0) (event_debounce_ms config)"
  shows "snd (on_any_event w B config self event now) = None"
proof -
  have "dval (gap_ms now l) \<le> dval (gap_ms now t0)"
    using assms(2,3) by (rule gap_ms_mono)
  moreover have "dval (gap_ms now t0) < of_int (event_debounce_ms config)"
    using assms(4) by (simp only: float_lt_int_dval)
  ultimately have "float_lt_int (gap_ms now l) (event_debounce_ms config)"
    by (simp only: float_lt_int_dval)
  then show ?thesis
    using assms(1) by (simp add: on_any_event_def debounced_def Let_def gap_ms_def)
qed

text \<open>After an event, a key whose recorded time lies between \<open>t0\<close> and the clock
  reading of the event still has a recorded time in that range.\<close>

lemma on_any_event_last:
  assumes "on_any_event w B config self event now = (self', r)"
    and "fmlookup (last_event self) p = Some l"
    and "dval t0 \<le> dval l" and "dval l \<le> dval now"
  shows "\<exists>l'. fmlookup (last_event self') p = Some l' \<and> dval t0 \<le> dval l'
           \<and> dval l' \<le> dval now"
  using assms
  by (auto simp: on_any_event_def debounced_def Let_def split: if_splits)

lemma on_any_event_classified_last:
  assumes "on_any_event w B config self event now = (self', r)" and "r \<noteq> None"
  shows "fmlookup (last_event self') (str_of_path w (src_path event)) = Some now"
  using assms
  by (auto simp: on_any_event_def debounced_def Let_def split: if_splits)

lemma watch_events_after_classified:
  assumes "fmlookup (last_event self) p = Some l" and "dval t0 \<le> dval l"
    and "sorted (map (\<lambda>ev. dval (snd ev)) evs)"
    and "\<forall>ev \<in> set evs. dval l \<le> dval (snd ev)"
    and "k < length evs" and "event_key w (evs ! k) = p"
    and "float_lt_int (gap_ms (snd (evs ! k)) t0) (event_debounce_ms config)"
  shows "watch_events w B config self evs ! k = None"
  using assms
proof (induction evs arbitrary: self l k)
  case Nil
  then show ?case by simp
next
  case (Cons ev evs)
  obtain event now where ev: "ev = (event, now)" by (cases ev)
  obtain self' r where step: "on_any_event w B config self event now = (self', r)"
    by (cases "on_any_event w B config self event now")
  have now: "dval l \<le> dval now"
    using Cons.prems(4) ev by simp
  show ?case
  proof (cases k)
    case 0
    have "snd (on_any_event w B config self event now) = None"
      using Cons.prems 0 ev now
      by (intro on_any_event_rejects [where l = l and ?t0.0 = t0]) (simp_all add: event_key_def)
    then show ?thesis
      using 0 ev step by simp
  next
    case (Suc k')
    obtain l' where l': "fmlookup (last_event self') p = Some l'" "dval t0 \<le> dval l'"
      and l'_now: "dval l' \<le> dval now"
      using on_any_event_last [OF step Cons.prems(1,2) now] by blast
    have later: "\<forall>e \<in> set evs. dval now \<le> dval (snd e)"
      using Cons.prems(3) ev by auto
    have rest: "\<forall>e \<in> set evs. dval l' \<le> dval (snd e)"
      using later l'_now by force
    have "sorted (map (\<lambda>ev. dval (snd ev)) evs)"
      using Cons.prems(3) by simp
    then have "watch_events w B config self' evs ! k' = None"
      using Cons.prems(5,6,7) Suc rest by (intro Cons.IH [OF l']) simp_all
    then show ?thesis
      using Suc ev step by simp
  qed
qed

text \<open>
  Claim C8, as the code has it. In a run of the handler over events whose clock
  readings do not decrease: when two events have the same path, the gap between their
  clock readings as \<open>_debounced\<close> computes it in floating point,
  \<open>(later - earlier) * 1000\<close>, is less than \<open>event_debounce_ms\<close>, and the earlier one
  was classified, then the later one is rejected and the classifier is not called for
  it. So at most one of the two events is classified.
\<close>

theorem debounce_at_most_one:
  assumes "sorted (map (\<lambda>ev. dval (snd ev)) evs)" and "i < j" and "j < length evs"
    and "event_key w (evs ! i) = event_key w (evs ! j)"
    and "float_lt_int (gap_ms (snd (evs ! j)) (snd (evs ! i))) (event_debounce_ms config)"
    and "classified (watch_events w B config self evs ! i)"
  shows "\<not> classified (watch_events w B config self evs ! j)"
  using assms
proof (induction evs arbitrary: self i j)
  case Nil
  then show ?case by simp
next
  case (Cons ev evs)
  obtain event now where ev: "ev = (event, now)" by (cases ev)
  obtain self' r where step: "on_any_event w B config self event now = (self', r)"
    by (cases "on_any_event w B config self event now")
  obtain j' where j: "j = Suc j'" using Cons.prems(2) by (cases j) simp_all
  have tail: "sorted (map (\<lambda>ev. dval (snd ev)) evs)"
    using Cons.prems(1) by simp
  show ?case
  proof (cases i)
    case 0
    have r: "r \<noteq> None"
      using Cons.prems(6) 0 ev step by (simp add: classified_def)
    have last: "fmlookup (last_event self') (event_key w (evs ! j')) = Some now"
      using on_any_event_classified_last [OF step r] Cons.prems(4) 0 j ev
      by (simp add: event_key_def)
    have later: "\<forall>e \<in> set evs. dval now \<le> dval (snd e)"
      using Cons.prems(1) ev by auto
    have "watch_events w B config self' evs ! j' = None"
      using Cons.prems(3,5) 0 j ev
      by (intro watch_events_after_classified [OF last order_refl tail later]) simp_all
    then show ?thesis
      using j ev step by (simp add: classified_def)
  next
    case (Suc i')
    have "\<not> classified (watch_events w B config self' evs ! j')"
      using Cons.prems(2-6) tail Suc j ev step by (intro Cons.IH [of i' j' self']) simp_all
    then show ?thesis
      using j ev step by simp
  qed
qed

lemma example_events_run:
  "watch_events example_world example_baseline example_config new_handler example_events =
     [Some ([Info ''MODIFIED /b before=H2 after=#B''], Inr ()),
      None,
      Some ([Info ''MODIFIED /b before=H2 after=#B''], Inr ())]"
  by code_simp

lemma example_events_sorted: "sorted (map (\<lambda>ev. dval (snd ev)) example_events)"
  by (simp add: example_events_def)

theorem debounce_at_most_one_witness:
  "sorted (map (\<lambda>ev. dval (snd ev)) example_events) \<and> (0::nat) < 1 \<and>
   1 < length example_events \<and>
   event_key example_world (example_events ! 0) = event_key example_world (example_events ! 1) \<and>
   float_lt_int (gap_ms (snd (example_events ! 1)) (snd (example_events ! 0)))
     (event_debounce_ms example_config) \<and>
   classified (watch_events example_world example_baseline example_config new_handler
                 example_events ! 0) \<and>
   \<not> classified (watch_events example_world example_baseline example_config new_handler
                   example_events ! 1)"
proof -
  have n: "1 < length example_events"
    by (simp add: example_events_def)
  have k: "event_key example_world (example_events ! 0)
             = event_key example_world (example_events ! 1)"
    by (simp add: example_events_def event_key_def)
  have d: "float_lt_int (gap_ms (snd (example_events ! 1)) (snd (example_events ! 0)))
             (event_debounce_ms example_config)"
    by code_simp
  have c: "classified (watch_events example_world example_baseline example_config new_handler
                         example_events ! 0)"
    by (simp add: example_events_run classified_def)
  show ?thesis
    using debounce_at_most_one [OF example_events_sorted _ n k d c] example_events_sorted n k d c
    by simp
qed

text \<open>
  Claim C8 as stated fails. The second and the third event of \<open>example_events\<close> have
  the same path and arrive 125 ms apart, within the window of 250 ms, by the exact
  difference of the readings and by the gap that \<open>_debounced\<close> computes; the second is
  rejected, because the first was classified 125 ms before it, and the third is
  classified, because the time recorded for the path is still that of the first event,
  250 ms before it.
\<close>

theorem debounce_second_event_counterexample:
  "sorted (map (\<lambda>ev. dval (snd ev)) example_events) \<and> (1::nat) < 2 \<and>
   2 < length example_events \<and>
   event_key example_world (example_events ! 1) = event_key example_world (example_events ! 2) \<and>
   (dval (snd (example_events ! 2)) - dval (snd (example_events ! 1))) * 1000
     < of_int (event_debounce_ms example_config) \<and>
   float_lt_int (gap_ms (snd (example_events ! 2)) (snd (example_events ! 1)))
     (event_debounce_ms example_config) \<and>
   \<not> classified (watch_events example_world example_baseline example_config new_handler
                   example_events ! 1) \<and>
   classified (watch_events example_world example_baseline example_config new_handler
                 example_events ! 2)"
proof -
  have g: "float_lt_int (gap_ms (snd (example_events ! 2)) (snd (example_events ! 1)))
             (event_debounce_ms example_config)"
    by code_simp
  have x: "(dval (snd (example_events ! 2)) - dval (snd (example_events ! 1))) * 1000
             < of_int (event_debounce_ms example_config)"
    by (simp add: example_events_def example_config_def)
  have k: "event_key example_world (example_events ! 1)
             = event_key example_world (example_events ! 2)"
    by (simp add: example_events_def event_key_def)
  have n: "2 < length example_events"
    by (simp add: example_events_def)
  show ?thesis
    using example_events_sorted g x k n by (simp add: example_events_run classified_def)
qed

text \<open>
  The rounding of the floating-point arithmetic matters. With a window of 60 ms and
  the clock readings \<open>0.25\<close> and \<open>0.31\<close>, the exact difference of the two floats is less
  than 60 ms, but the product that \<open>_debounced\<close> computes is the float \<open>60.0\<close>, which
  is not less than 60: both events are classified.
\<close>

lemma rounding_events_run:
  "(dval (snd (rounding_events ! 1)) - dval (snd (rounding_events ! 0))) * 1000
     < of_int (event_debounce_ms example_config_60) \<and>
   dval (gap_ms (snd (rounding_events ! 1)) (snd (rounding_events ! 0))) = 60 \<and>
   \<not> float_lt_int (gap_ms (snd (rounding_events ! 1)) (snd (rounding_events ! 0)))
       (event_debounce_ms example_config_60) \<and>
   map classified
     (watch_events example_world example_baseline example_config_60 new_handler
        rounding_events) = [True, True]"
proof -
  have a: "(dval (snd (rounding_events ! 1)) - dval (snd (rounding_events ! 0))) * 1000
             < of_int (event_debounce_ms example_config_60)"
    by (simp add: rounding_events_def example_config_60_def example_config_def)
  have b: "gap_ms (snd (rounding_events ! 1)) (snd (rounding_events ! 0))
             = Double 8444249301319680 (- 47)"
    by code_simp
  have c: "dval (Double 8444249301319680 (- 47)) = 60"
    by simp
  have d: "\<not> float_lt_int (Double 8444249301319680 (- 47))
               (event_debounce_ms example_config_60)"
    by code_simp
  have e: "map classified
     (watch_events example_world example_baseline example_config_60 new_handler
        rounding_events) = [True, True]"
    by code_simp
  show ?thesis
    using a b c d e by simp
qed

end
